theory Spec2Isabelle
  imports Main "HOL-Library.Word"
begin

section \<open>Data model of package function\<close>

text \<open>
  The Go package \<^verbatim>\<open>function\<close> (src/function/function.go) drives a remote Lambda service
  through the interface \<^verbatim>\<open>lambdaiface.LambdaAPI\<close>. The embedding keeps the structs as
  records, Go pointers that the code dereferences as \<open>option\<close> values (\<open>None\<close> is
  \<^verbatim>\<open>nil\<close>), errors as values of one datatype, and a panic as an outcome of its own.
  Every remote call and every log line is appended to a trace held in the world state,
  so that "which remote calls were made" is a statement about a list.
\<close>

type_synonym bytes = "8 word list"

text \<open>\<^verbatim>\<open>type InvokeError struct\<close>, lines 44-49.\<close>

record InvokeError =
  Message :: string
  Type :: string
  Stack :: "string list"
  Handled :: bool

text \<open>
  Error values. \<open>AwsError code message\<close> is a value implementing \<^verbatim>\<open>awserr.Error\<close>;
  \<open>ErrorString\<close> is \<^verbatim>\<open>errors.New\<close>; \<open>OpenError\<close> and \<open>CompileError\<close> are the two
  \<^verbatim>\<open>fmt.Errorf\<close> wrappers of the file, kept structured (function name and cause) rather
  than formatted; \<open>ValidateError\<close> lists the fields the validator rejected;
  \<open>InvokeErr\<close> is a \<^verbatim>\<open>*InvokeError\<close>; \<open>ExternalError\<close> is any other error returned by
  a collaborator (os, encoding/json, the archive writer, the runtime package).
\<close>

datatype error =
    AwsError string string
  | ErrorString string
  | ValidateError "string list"
  | OpenError string error
  | CompileError error
  | InvokeErr InvokeError
  | ExternalError string

datatype panic = NilDereference | SliceBoundsOutOfRange

text \<open>What a Go call does: it returns a value, or it panics.\<close>

datatype 'a go = Return 'a | Panic panic

text \<open>\<^verbatim>\<open>type InvocationType string\<close> and its constants, lines 31-41.\<close>

type_synonym InvocationType = string

definition RequestResponse :: InvocationType where
  "RequestResponse = ''RequestResponse''"

definition Event :: InvocationType where
  "Event = ''Event''"

definition DryRun :: InvocationType where
  "DryRun = ''DryRun''"

definition CurrentAlias :: string where
  "CurrentAlias = ''current''"

text \<open>\<^verbatim>\<open>type Config struct\<close>, lines 57-63; \<^verbatim>\<open>int64\<close> is a 64-bit word.\<close>

record Config =
  Description :: string
  Runtime :: string
  Memory :: "64 word"
  Timeout :: "64 word"
  Role :: string

subsection \<open>The remote service: requests, responses, the capability record\<close>

record FunctionConfiguration =
  CodeSha256 :: "string option"
  Version :: "string option"

record GetFunctionInput =
  gf_FunctionName :: string

record GetFunctionOutput =
  Configuration :: "FunctionConfiguration option"

record CreateFunctionInput =
  cf_FunctionName :: string
  cf_Description :: string
  cf_MemorySize :: "64 word"
  cf_Timeout :: "64 word"
  cf_Runtime :: string
  cf_Handler :: string
  cf_Role :: string
  cf_Publish :: bool
  cf_ZipFile :: bytes

record UpdateFunctionCodeInput =
  uc_FunctionName :: string
  uc_Publish :: bool
  uc_ZipFile :: bytes

record UpdateFunctionConfigurationInput =
  ucf_FunctionName :: string
  ucf_MemorySize :: "64 word"
  ucf_Timeout :: "64 word"
  ucf_Description :: string
  ucf_Role :: string
  ucf_Handler :: string

record DeleteFunctionInput =
  df_FunctionName :: string

record GetAliasInput =
  ga_FunctionName :: string
  ga_Name :: string

record AliasConfiguration =
  FunctionVersion :: "string option"

record CreateAliasInput =
  ca_FunctionName :: string
  ca_FunctionVersion :: "string option"
  ca_Name :: string

record UpdateAliasInput =
  ua_FunctionName :: string
  ua_Name :: string
  ua_FunctionVersion :: "string option"

record ListVersionsByFunctionInput =
  lv_FunctionName :: string

record ListVersionsByFunctionOutput =
  Versions :: "FunctionConfiguration option list"

record InvokeInput =
  iv_ClientContext :: string
  iv_FunctionName :: string
  iv_InvocationType :: string
  iv_LogType :: string
  iv_Qualifier :: string
  iv_Payload :: bytes

record InvokeOutput =
  FunctionError :: "string option"
  LogResult :: "string option"
  Payload :: bytes

text \<open>
  \<^verbatim>\<open>lambdaiface.LambdaAPI\<close>, restricted to the ten methods the file calls. The remote is
  stateful: each method takes the remote state \<open>'s\<close> and returns the next one together
  with either an error or an output (the Go pair \<^verbatim>\<open>(out, err)\<close> with exactly one of the
  two set).
\<close>

record 's LambdaAPI =
  apiGetFunction :: "GetFunctionInput \<Rightarrow> 's \<Rightarrow> (error + GetFunctionOutput) \<times> 's"
  apiCreateFunction :: "CreateFunctionInput \<Rightarrow> 's \<Rightarrow> (error + FunctionConfiguration) \<times> 's"
  apiDeleteFunction :: "DeleteFunctionInput \<Rightarrow> 's \<Rightarrow> (error + unit) \<times> 's"
  apiUpdateFunctionCode :: "UpdateFunctionCodeInput \<Rightarrow> 's \<Rightarrow> (error + FunctionConfiguration) \<times> 's"
  apiUpdateFunctionConfiguration ::
    "UpdateFunctionConfigurationInput \<Rightarrow> 's \<Rightarrow> (error + FunctionConfiguration) \<times> 's"
  apiGetAlias :: "GetAliasInput \<Rightarrow> 's \<Rightarrow> (error + AliasConfiguration) \<times> 's"
  apiCreateAlias :: "CreateAliasInput \<Rightarrow> 's \<Rightarrow> (error + AliasConfiguration) \<times> 's"
  apiUpdateAlias :: "UpdateAliasInput \<Rightarrow> 's \<Rightarrow> (error + AliasConfiguration) \<times> 's"
  apiListVersionsByFunction ::
    "ListVersionsByFunctionInput \<Rightarrow> 's \<Rightarrow> (error + ListVersionsByFunctionOutput) \<times> 's"
  apiInvoke :: "InvokeInput \<Rightarrow> 's \<Rightarrow> (error + InvokeOutput) \<times> 's"

text \<open>The trace of remote calls, one constructor per method.\<close>

datatype call =
    CallGetFunction GetFunctionInput
  | CallCreateFunction CreateFunctionInput
  | CallDeleteFunction DeleteFunctionInput
  | CallUpdateFunctionCode UpdateFunctionCodeInput
  | CallUpdateFunctionConfiguration UpdateFunctionConfigurationInput
  | CallGetAlias GetAliasInput
  | CallCreateAlias CreateAliasInput
  | CallUpdateAlias UpdateAliasInput
  | CallListVersionsByFunction ListVersionsByFunctionInput
  | CallInvoke InvokeInput

text \<open>A remote mutation is a call that writes remote function, code, config or alias state.\<close>

fun isMutation :: "call \<Rightarrow> bool" where
  "isMutation (CallCreateFunction _) = True"
| "isMutation (CallDeleteFunction _) = True"
| "isMutation (CallUpdateFunctionCode _) = True"
| "isMutation (CallUpdateFunctionConfiguration _) = True"
| "isMutation (CallCreateAlias _) = True"
| "isMutation (CallUpdateAlias _) = True"
| "isMutation _ = False"

fun isAliasWrite :: "call \<Rightarrow> bool" where
  "isAliasWrite (CallCreateAlias _) = True"
| "isAliasWrite (CallUpdateAlias _) = True"
| "isAliasWrite _ = False"

fun isCreateFunction :: "call \<Rightarrow> bool" where
  "isCreateFunction (CallCreateFunction _) = True"
| "isCreateFunction _ = False"

fun isUpdateFunctionCode :: "call \<Rightarrow> bool" where
  "isUpdateFunctionCode (CallUpdateFunctionCode _) = True"
| "isUpdateFunctionCode _ = False"

fun isListVersions :: "call \<Rightarrow> bool" where
  "isListVersions (CallListVersionsByFunction _) = True"
| "isListVersions _ = False"

subsection \<open>Logging\<close>

datatype level = DebugLevel | InfoLevel

datatype logarg = ArgString string | ArgError error | ArgHumanBytes nat

text \<open>
  A log line: the logger's fields, the level, the message or format string, and the
  format arguments (kept unformatted; \<open>ArgHumanBytes n\<close> is \<^verbatim>\<open>humanize.Bytes(n)\<close>).
\<close>

datatype log_entry = LogEntry "(string \<times> string) list" level string "logarg list"

subsection \<open>Runtimes, the archive, the function\<close>

text \<open>
  A runtime of package \<^verbatim>\<open>runtime\<close> (not in this file): its name, handler and shim flag,
  and, when its dynamic type also implements \<^verbatim>\<open>runtime.CompiledRuntime\<close>, the hooks
  \<^verbatim>\<open>Build\<close> and \<^verbatim>\<open>Clean\<close>, which act on the disk \<open>'fs\<close>.
\<close>

record 'fs CompiledRuntime =
  Build :: "string \<Rightarrow> 'fs \<Rightarrow> error option \<times> 'fs"
  CleanHook :: "string \<Rightarrow> 'fs \<Rightarrow> error option \<times> 'fs"

record 'fs RuntimeT =
  rtName :: string
  rtHandler :: string
  Shimmed :: bool
  Compiled :: "'fs CompiledRuntime option"

type_synonym zip_entry = "string \<times> bytes"

text \<open>
  \<^verbatim>\<open>type Function struct\<close>, lines 68-77. \<open>Log\<close> is the logger, represented by the fields
  it attaches to every line; \<open>runtime\<close> is \<^verbatim>\<open>nil\<close> until \<^verbatim>\<open>Open\<close> sets it; \<open>env\<close> is a
  \<^verbatim>\<open>nil\<close> map until \<^verbatim>\<open>SetEnv\<close> makes one.
\<close>

record ('s, 'fs) Function =
  Config :: Config
  Name :: string
  FunctionName :: string
  Path :: string
  Service :: "'s LambdaAPI"
  Log :: "(string \<times> string) list"
  runtime :: "'fs RuntimeT option"
  env :: "(string \<rightharpoonup> string) option"

text \<open>
  The collaborators outside this file, taken as parameters: the operating system and
  encoding/json (\<open>osOpen\<close>, \<open>Join\<close>, \<open>decodeConfig\<close>, \<open>jsonMarshal\<close>, \<open>marshalEnv\<close>,
  \<open>unmarshalInvokeError\<close>, \<open>base64Encode\<close>), the archive writer (\<open>AddDir\<close>,
  \<open>zipCloseErr\<close>, \<open>zipEncode\<close>), and the packages \<^verbatim>\<open>runtime\<close>, \<^verbatim>\<open>shim\<close> and
  \<^verbatim>\<open>utils\<close> of the repository (\<open>Detect\<close>, \<open>ByName\<close>, \<open>MustAsset\<close>, \<open>Sha256\<close>).
  \<open>decodeConfig\<close> and \<open>unmarshalInvokeError\<close> take the value decoded into, as the Go
  decoders do through the pointer they are given.
\<close>

record ('fs, 'v) sys =
  Join :: "string \<Rightarrow> string \<Rightarrow> string"
  osOpen :: "'fs \<Rightarrow> string \<Rightarrow> error + bytes"
  decodeConfig :: "bytes \<Rightarrow> Config \<Rightarrow> error option \<times> Config"
  Detect :: "'fs \<Rightarrow> string \<Rightarrow> error + string"
  ByName :: "string \<Rightarrow> error + 'fs RuntimeT"
  Sha256 :: "bytes \<Rightarrow> string"
  MustAsset :: "string \<Rightarrow> bytes"
  marshalEnv :: "(string \<rightharpoonup> string) \<Rightarrow> error + bytes"
  AddDir :: "'fs \<Rightarrow> string \<Rightarrow> error + zip_entry list"
  zipCloseErr :: "zip_entry list \<Rightarrow> error option"
  zipEncode :: "zip_entry list \<Rightarrow> bytes"
  jsonMarshal :: "'v \<Rightarrow> error + bytes"
  base64Encode :: "bytes \<Rightarrow> string"
  unmarshalInvokeError :: "bytes \<Rightarrow> InvokeError \<Rightarrow> error + InvokeError"

text \<open>The world an operation runs in: remote state, disk, and the two traces.\<close>

record ('s, 'fs) world =
  remote :: 's
  disk :: 'fs
  calls :: "call list"
  logged :: "log_entry list"

section \<open>Operations\<close>

subsection \<open>Logging and remote calls as steps on the world\<close>

definition logf ::
  "('s, 'fs) Function \<Rightarrow> level \<Rightarrow> string \<Rightarrow> logarg list \<Rightarrow> ('s, 'fs) world \<Rightarrow> ('s, 'fs) world" where
  "logf f lvl msg args w = w\<lparr>logged := logged w @ [LogEntry (Log f) lvl msg args]\<rparr>"

definition perform ::
  "('s \<Rightarrow> 'r \<times> 's) \<Rightarrow> call \<Rightarrow> ('s, 'fs) world \<Rightarrow> 'r \<times> ('s, 'fs) world" where
  "perform m c w =
     (case m (remote w) of (r, s) \<Rightarrow> (r, w\<lparr>remote := s, calls := calls w @ [c]\<rparr>))"

subsection \<open>Open and SetEnv\<close>




text \<open>
  \<^verbatim>\<open>func (f *Function) Open() error\<close>, lines 80-107. The receiver is mutated, so the
  function returns it next to the error (\<open>None\<close> is \<^verbatim>\<open>nil\<close>).
\<close>




text \<open>\<^verbatim>\<open>func (f *Function) SetEnv(name, value string)\<close>, lines 110-115.\<close>

definition SetEnv :: "('s, 'fs) Function \<Rightarrow> string \<Rightarrow> string \<Rightarrow> ('s, 'fs) Function" where
  "SetEnv f name val =
     f\<lparr>env := Some ((case env f of None \<Rightarrow> Map.empty | Some m \<Rightarrow> m)(name \<mapsto> val))\<rparr>"

subsection \<open>Zip and ZipBytes\<close>

text \<open>
  \<^verbatim>\<open>func (f *Function) Zip() (io.Reader, error)\<close>, lines 379-416, in the four blocks
  of its body. The buffer the zip writer fills is represented by the list of entries
  written to it, in order; \<^verbatim>\<open>zip.AddBytes\<close> appends one entry (its error result is
  dropped by the code), \<^verbatim>\<open>zip.AddDir\<close> appends the files found under the path or
  fails.
\<close>

text \<open>
  Lines 383-388. The type assertion to \<^verbatim>\<open>runtime.CompiledRuntime\<close> is false on a
  \<^verbatim>\<open>nil\<close> runtime.
\<close>

definition zipBuild ::
  "('s, 'fs) Function \<Rightarrow> ('s, 'fs) world \<Rightarrow> error option \<times> ('s, 'fs) world" where
  "zipBuild f w =
     (case (case runtime f of None \<Rightarrow> None | Some rt \<Rightarrow> Compiled rt) of
        None \<Rightarrow> (None, w)
      | Some r \<Rightarrow>
          (case Build r (Path f) (disk w) of
             (e, d) \<Rightarrow> (e, (logf f DebugLevel ''compiling'' [] w)\<lparr>disk := d\<rparr>)))"

text \<open>Lines 390-399: the entry \<^verbatim>\<open>.env.json\<close>, when the map is not \<^verbatim>\<open>nil\<close>.\<close>

definition zipEnv ::
  "('fs, 'v) sys \<Rightarrow> ('s, 'fs) Function \<Rightarrow> ('s, 'fs) world \<Rightarrow>
     (error + zip_entry list) \<times> ('s, 'fs) world" where
  "zipEnv sy f w =
     (case env f of
        None \<Rightarrow> (Inr [], w)
      | Some m \<Rightarrow>
          (case marshalEnv sy m of
             Inl err \<Rightarrow> (Inl err, logf f DebugLevel ''adding .env.json'' [] w)
           | Inr b \<Rightarrow> (Inr [(''.env.json'', b)], logf f DebugLevel ''adding .env.json'' [] w)))"

text \<open>
  Lines 401-405: the two shim entries. The method call \<^verbatim>\<open>f.runtime.Shimmed()\<close> on a
  \<^verbatim>\<open>nil\<close> runtime panics.
\<close>

definition zipShim ::
  "('fs, 'v) sys \<Rightarrow> ('s, 'fs) Function \<Rightarrow> zip_entry list \<Rightarrow> ('s, 'fs) world \<Rightarrow>
     zip_entry list go \<times> ('s, 'fs) world" where
  "zipShim sy f z w =
     (case runtime f of
        None \<Rightarrow> (Panic NilDereference, w)
      | Some rt \<Rightarrow>
          if Shimmed rt
          then (Return (z @ [(''index.js'', MustAsset sy ''index.js''),
                             (''byline.js'', MustAsset sy ''byline.js'')]),
                logf f DebugLevel ''adding nodejs shim'' [] w)
          else (Return z, w))"

text \<open>Lines 407-415: the source directory, then closing the writer.\<close>

definition zipFinish ::
  "('fs, 'v) sys \<Rightarrow> ('s, 'fs) Function \<Rightarrow> zip_entry list \<Rightarrow> ('s, 'fs) world \<Rightarrow>
     error + zip_entry list" where
  "zipFinish sy f z w =
     (case AddDir sy (disk w) (Path f) of
        Inl err \<Rightarrow> Inl err
      | Inr files \<Rightarrow>
          (case zipCloseErr sy (z @ files) of
             Some err \<Rightarrow> Inl err
           | None \<Rightarrow> Inr (z @ files)))"

definition Zip ::
  "('fs, 'v) sys \<Rightarrow> ('s, 'fs) Function \<Rightarrow> ('s, 'fs) world \<Rightarrow>
     (error + zip_entry list) go \<times> ('s, 'fs) world" where
  "Zip sy f w =
     (case zipBuild f w of
        (Some err, w1) \<Rightarrow> (Return (Inl (CompileError err)), w1)
      | (None, w1) \<Rightarrow>
          (case zipEnv sy f w1 of
             (Inl err, w2) \<Rightarrow> (Return (Inl err), w2)
           | (Inr z1, w2) \<Rightarrow>
               (case zipShim sy f z1 w2 of
                  (Panic p, w3) \<Rightarrow> (Panic p, w3)
                | (Return z2, w3) \<Rightarrow> (Return (zipFinish sy f z2 w3), w3))))"

text \<open>
  \<^verbatim>\<open>func (f *Function) ZipBytes() ([]byte, error)\<close>, lines 419-434. Reading a
  \<^verbatim>\<open>bytes.Buffer\<close> to its end does not fail; it yields the encoding of the entries.
\<close>

definition ZipBytes ::
  "('fs, 'v) sys \<Rightarrow> ('s, 'fs) Function \<Rightarrow> ('s, 'fs) world \<Rightarrow>
     (error + bytes) go \<times> ('s, 'fs) world" where
  "ZipBytes sy f w =
     (case Zip sy f (logf f DebugLevel ''creating zip'' [] w) of
        (Panic p, w1) \<Rightarrow> (Panic p, w1)
      | (Return (Inl err), w1) \<Rightarrow> (Return (Inl err), w1)
      | (Return (Inr r), w1) \<Rightarrow>
          (let b = zipEncode sy r
           in (Return (Inr b),
               logf f InfoLevel ''created zip (%s)'' [ArgHumanBytes (length b)] w1)))"

text \<open>\<^verbatim>\<open>func (f *Function) Clean() error\<close>, lines 371-376.\<close>

definition Clean ::
  "('s, 'fs) Function \<Rightarrow> ('s, 'fs) world \<Rightarrow> error option \<times> ('s, 'fs) world" where
  "Clean f w =
     (case (case runtime f of None \<Rightarrow> None | Some rt \<Rightarrow> Compiled rt) of
        Some r \<Rightarrow> (case CleanHook r (Path f) (disk w) of (e, d) \<Rightarrow> (e, w\<lparr>disk := d\<rparr>))
      | None \<Rightarrow> (None, w))"

subsection \<open>Create, Update, Info, DeployCode, DeployConfig, Deploy, Delete\<close>

text \<open>\<^verbatim>\<open>func (f *Function) Info()\<close>, lines 184-189.\<close>

definition Info ::
  "('s, 'fs) Function \<Rightarrow> ('s, 'fs) world \<Rightarrow> (error + GetFunctionOutput) \<times> ('s, 'fs) world" where
  "Info f w =
     (let inp = \<lparr>gf_FunctionName = FunctionName f\<rparr>
      in perform (apiGetFunction (Service f) inp) (CallGetFunction inp)
           (logf f DebugLevel ''fetching config'' [] w))"

text \<open>\<^verbatim>\<open>func (f *Function) Update(zip []byte) error\<close>, lines 192-214.\<close>

definition Update ::
  "('s, 'fs) Function \<Rightarrow> bytes \<Rightarrow> ('s, 'fs) world \<Rightarrow> error option go \<times> ('s, 'fs) world" where
  "Update f zipfile w =
     (let inp = \<lparr>uc_FunctionName = FunctionName f, uc_Publish = True, uc_ZipFile = zipfile\<rparr>
      in case perform (apiUpdateFunctionCode (Service f) inp) (CallUpdateFunctionCode inp)
                (logf f InfoLevel ''updating function'' [] w) of
           (Inl err, w1) \<Rightarrow> (Return (Some err), w1)
         | (Inr updated, w1) \<Rightarrow>
             (let ainp = \<lparr>ua_FunctionName = FunctionName f, ua_Name = CurrentAlias,
                          ua_FunctionVersion = Version updated\<rparr>
              in case perform (apiUpdateAlias (Service f) ainp) (CallUpdateAlias ainp)
                        (logf f InfoLevel ''updating alias'' [] w1) of
                   (Inl err, w2) \<Rightarrow> (Return (Some err), w2)
                 | (Inr _, w2) \<Rightarrow> (Return None, w2)))"

text \<open>
  \<^verbatim>\<open>func (f *Function) Create(zip []byte) error\<close>, lines 217-247. The request is built
  before the call, so \<^verbatim>\<open>f.runtime.Name()\<close> on a \<^verbatim>\<open>nil\<close> runtime panics before any
  remote call.
\<close>

definition Create ::
  "('s, 'fs) Function \<Rightarrow> bytes \<Rightarrow> ('s, 'fs) world \<Rightarrow> error option go \<times> ('s, 'fs) world" where
  "Create f zipfile w =
     (let w0 = logf f InfoLevel ''creating function'' [] w
      in case runtime f of
           None \<Rightarrow> (Panic NilDereference, w0)
         | Some rt \<Rightarrow>
             (let inp = \<lparr>cf_FunctionName = FunctionName f,
                         cf_Description = Description (Config f),
                         cf_MemorySize = Memory (Config f),
                         cf_Timeout = Timeout (Config f),
                         cf_Runtime = rtName rt,
                         cf_Handler = rtHandler rt,
                         cf_Role = Role (Config f),
                         cf_Publish = True,
                         cf_ZipFile = zipfile\<rparr>
              in case perform (apiCreateFunction (Service f) inp) (CallCreateFunction inp) w0 of
                   (Inl err, w1) \<Rightarrow> (Return (Some err), w1)
                 | (Inr created, w1) \<Rightarrow>
                     (let ainp = \<lparr>ca_FunctionName = FunctionName f,
                                  ca_FunctionVersion = Version created,
                                  ca_Name = CurrentAlias\<rparr>
                      in case perform (apiCreateAlias (Service f) ainp) (CallCreateAlias ainp)
                                (logf f InfoLevel ''creating alias'' [] w1) of
                           (Inl err, w2) \<Rightarrow> (Return (Some err), w2)
                         | (Inr _, w2) \<Rightarrow> (Return None, w2))))"

text \<open>
  The type assertion \<^verbatim>\<open>err.(awserr.Error)\<close> of line 137 together with the test of the
  code, line 138.
\<close>

fun isNotFound :: "error + 'a \<Rightarrow> bool" where
  "isNotFound (Inl (AwsError code msg)) = (code = ''ResourceNotFoundException'')"
| "isNotFound _ = False"

text \<open>\<^verbatim>\<open>func (f *Function) DeployCode() error\<close>, lines 127-156.\<close>

definition DeployCode ::
  "('fs, 'v) sys \<Rightarrow> ('s, 'fs) Function \<Rightarrow> ('s, 'fs) world \<Rightarrow>
     error option go \<times> ('s, 'fs) world" where
  "DeployCode sy f w =
     (case ZipBytes sy f (logf f InfoLevel ''deploying'' [] w) of
        (Panic p, w1) \<Rightarrow> (Panic p, w1)
      | (Return (Inl err), w1) \<Rightarrow> (Return (Some err), w1)
      | (Return (Inr zipfile), w1) \<Rightarrow>
          (case Info f w1 of
             (r, w2) \<Rightarrow>
               if isNotFound r then Create f zipfile w2
               else (case r of
                       Inl err \<Rightarrow> (Return (Some err), w2)
                     | Inr info \<Rightarrow>
                         (case Configuration info of
                            None \<Rightarrow> (Panic NilDereference, w2)
                          | Some c \<Rightarrow>
                              (case CodeSha256 c of
                                 None \<Rightarrow> (Panic NilDereference, w2)
                               | Some remoteHash \<Rightarrow>
                                   (let localHash = Sha256 sy zipfile
                                    in if localHash = remoteHash
                                       then (Return None, logf f InfoLevel ''unchanged'' [] w2)
                                       else Update f zipfile w2))))))"

text \<open>\<^verbatim>\<open>func (f *Function) DeployConfig() error\<close>, lines 159-172.\<close>

definition DeployConfig ::
  "('s, 'fs) Function \<Rightarrow> ('s, 'fs) world \<Rightarrow> error option go \<times> ('s, 'fs) world" where
  "DeployConfig f w =
     (let w0 = logf f InfoLevel ''deploying config'' [] w
      in case runtime f of
           None \<Rightarrow> (Panic NilDereference, w0)
         | Some rt \<Rightarrow>
             (let inp = \<lparr>ucf_FunctionName = FunctionName f,
                         ucf_MemorySize = Memory (Config f),
                         ucf_Timeout = Timeout (Config f),
                         ucf_Description = Description (Config f),
                         ucf_Role = Role (Config f),
                         ucf_Handler = rtHandler rt\<rparr>
              in case perform (apiUpdateFunctionConfiguration (Service f) inp)
                        (CallUpdateFunctionConfiguration inp) w0 of
                   (Inl err, w1) \<Rightarrow> (Return (Some err), w1)
                 | (Inr _, w1) \<Rightarrow> (Return None, w1)))"

text \<open>\<^verbatim>\<open>func (f *Function) Deploy() error\<close>, lines 118-124.\<close>

definition Deploy ::
  "('fs, 'v) sys \<Rightarrow> ('s, 'fs) Function \<Rightarrow> ('s, 'fs) world \<Rightarrow>
     error option go \<times> ('s, 'fs) world" where
  "Deploy sy f w =
     (case DeployCode sy f w of
        (Panic p, w1) \<Rightarrow> (Panic p, w1)
      | (Return (Some err), w1) \<Rightarrow> (Return (Some err), w1)
      | (Return None, w1) \<Rightarrow> DeployConfig f w1)"

text \<open>\<^verbatim>\<open>func (f *Function) Delete() error\<close>, lines 175-181.\<close>

definition Delete ::
  "('s, 'fs) Function \<Rightarrow> ('s, 'fs) world \<Rightarrow> error option \<times> ('s, 'fs) world" where
  "Delete f w =
     (let inp = \<lparr>df_FunctionName = FunctionName f\<rparr>
      in case perform (apiDeleteFunction (Service f) inp) (CallDeleteFunction inp)
                (logf f InfoLevel ''deleting'' [] w) of
           (Inl err, w1) \<Rightarrow> (Some err, w1)
         | (Inr _, w1) \<Rightarrow> (None, w1))"

subsection \<open>Invoke\<close>

text \<open>
  An \<^verbatim>\<open>io.Reader\<close> returned by \<^verbatim>\<open>Invoke\<close>: \<^verbatim>\<open>bytes.NewReader(b)\<close>, or the base64
  decoder over a string (decoding happens when the caller reads).
\<close>

datatype reader = BytesReader bytes | Base64Decoder string

fun readerLen :: "reader \<Rightarrow> nat option" where
  "readerLen (BytesReader b) = Some (length b)"
| "readerLen (Base64Decoder s) = None"

text \<open>
  \<^verbatim>\<open>func (f *Function) Invoke(event, context interface{}, kind InvocationType)
  (reply, logs io.Reader, err error)\<close>, lines 250-293. The three results are kept as
  a triple; \<open>None\<close> is \<^verbatim>\<open>nil\<close>.
\<close>

definition Invoke ::
  "('fs, 'v) sys \<Rightarrow> ('s, 'fs) Function \<Rightarrow> 'v \<Rightarrow> 'v \<Rightarrow> InvocationType \<Rightarrow> ('s, 'fs) world \<Rightarrow>
     (reader option \<times> reader option \<times> error option) go \<times> ('s, 'fs) world" where
  "Invoke sy f event context kind w =
     (case jsonMarshal sy event of
        Inl err \<Rightarrow> (Return (None, None, Some err), w)
      | Inr eventBytes \<Rightarrow>
          (case jsonMarshal sy context of
             Inl err \<Rightarrow> (Return (None, None, Some err), w)
           | Inr contextBytes \<Rightarrow>
               (let inp = \<lparr>iv_ClientContext = base64Encode sy contextBytes,
                           iv_FunctionName = FunctionName f,
                           iv_InvocationType = kind,
                           iv_LogType = ''Tail'',
                           iv_Qualifier = CurrentAlias,
                           iv_Payload = eventBytes\<rparr>
                in case perform (apiInvoke (Service f) inp) (CallInvoke inp) w of
                     (Inl err, w1) \<Rightarrow> (Return (None, None, Some err), w1)
                   | (Inr res, w1) \<Rightarrow>
                       (case FunctionError res of
                          Some fe \<Rightarrow>
                            (let e = \<lparr>Message = [], Type = [], Stack = [],
                                      Handled = (fe = ''Handled'')\<rparr>
                             in case unmarshalInvokeError sy (Payload res) e of
                                  Inl err \<Rightarrow> (Return (None, None, Some err), w1)
                                | Inr e' \<Rightarrow> (Return (None, None, Some (InvokeErr e')), w1))
                        | None \<Rightarrow>
                            if kind = Event
                            then (Return (Some (BytesReader []), Some (BytesReader []), None), w1)
                            else (case LogResult res of
                                    None \<Rightarrow> (Panic NilDereference, w1)
                                  | Some lr \<Rightarrow>
                                      (Return (Some (BytesReader (Payload res)),
                                               Some (Base64Decoder lr), None), w1))))))"

subsection \<open>Rollback and RollbackVersion\<close>

text \<open>\<^verbatim>\<open>*versions[i].Version\<close>: the element is a pointer, and so is its field.\<close>

definition derefVersion :: "FunctionConfiguration option \<Rightarrow> string option" where
  "derefVersion v = (case v of None \<Rightarrow> None | Some c \<Rightarrow> Version c)"

definition errOnlyOne :: error where
  "errOnlyOne = ErrorString (''Can'' @ [CHR 0x27] @ ''t rollback. Only one version deployed.'')"

definition errCurrentlyDeployed :: error where
  "errCurrentlyDeployed = ErrorString ''Specified version currently deployed.''"

text \<open>
  \<^verbatim>\<open>func (f *Function) Rollback() error\<close>, lines 296-340. \<^verbatim>\<open>list.Versions[1:]\<close> on
  an empty slice is out of range and panics.
\<close>

definition Rollback ::
  "('s, 'fs) Function \<Rightarrow> ('s, 'fs) world \<Rightarrow> error option go \<times> ('s, 'fs) world" where
  "Rollback f w =
     (let ginp = \<lparr>ga_FunctionName = FunctionName f, ga_Name = CurrentAlias\<rparr>
      in case perform (apiGetAlias (Service f) ginp) (CallGetAlias ginp)
                (logf f InfoLevel ''rolling back'' [] w) of
           (Inl err, w1) \<Rightarrow> (Return (Some err), w1)
         | (Inr alias, w1) \<Rightarrow>
             (case FunctionVersion alias of
                None \<Rightarrow> (Panic NilDereference, w1)
              | Some currentVersion \<Rightarrow>
                  (let linp = \<lparr>lv_FunctionName = FunctionName f\<rparr>
                   in case perform (apiListVersionsByFunction (Service f) linp)
                             (CallListVersionsByFunction linp)
                             (logf f InfoLevel ''current version: %s''
                                [ArgString currentVersion] w1) of
                        (Inl err, w2) \<Rightarrow> (Return (Some err), w2)
                      | (Inr lst, w2) \<Rightarrow>
                          (case Versions lst of
                             [] \<Rightarrow> (Panic SliceBoundsOutOfRange, w2)
                           | _ # versions \<Rightarrow>
                               if length versions < 2 then (Return (Some errOnlyOne), w2)
                               else
                                 (case derefVersion (versions ! (length versions - 1)) of
                                    None \<Rightarrow> (Panic NilDereference, w2)
                                  | Some latest \<Rightarrow>
                                      (case derefVersion (versions ! (length versions - 2)) of
                                         None \<Rightarrow> (Panic NilDereference, w2)
                                       | Some prev \<Rightarrow>
                                           (let rollback =
                                                  (if currentVersion = latest then prev
                                                   else latest);
                                                uinp = \<lparr>ua_FunctionName = FunctionName f,
                                                        ua_Name = CurrentAlias,
                                                        ua_FunctionVersion = Some rollback\<rparr>
                                            in case perform (apiUpdateAlias (Service f) uinp)
                                                      (CallUpdateAlias uinp)
                                                      (logf f InfoLevel ''rollback to version: %s''
                                                         [ArgString rollback] w2) of
                                                 (Inl err, w3) \<Rightarrow> (Return (Some err), w3)
                                               | (Inr _, w3) \<Rightarrow> (Return None, w3))))))))"

text \<open>\<^verbatim>\<open>func (f *Function) RollbackVersion(version string) error\<close>, lines 343-368.\<close>

definition RollbackVersion ::
  "('s, 'fs) Function \<Rightarrow> string \<Rightarrow> ('s, 'fs) world \<Rightarrow> error option go \<times> ('s, 'fs) world" where
  "RollbackVersion f version w =
     (let ginp = \<lparr>ga_FunctionName = FunctionName f, ga_Name = CurrentAlias\<rparr>
      in case perform (apiGetAlias (Service f) ginp) (CallGetAlias ginp)
                (logf f InfoLevel ''rolling back'' [] w) of
           (Inl err, w1) \<Rightarrow> (Return (Some err), w1)
         | (Inr alias, w1) \<Rightarrow>
             (case FunctionVersion alias of
                None \<Rightarrow> (Panic NilDereference, w1)
              | Some currentVersion \<Rightarrow>
                  (let w2 = logf f InfoLevel ''current version: %s''
                              [ArgString currentVersion] w1
                   in if version = currentVersion
                      then (Return (Some errCurrentlyDeployed), w2)
                      else
                        (let uinp = \<lparr>ua_FunctionName = FunctionName f,
                                     ua_Name = CurrentAlias,
                                     ua_FunctionVersion = Some version\<rparr>
                         in case perform (apiUpdateAlias (Service f) uinp)
                                   (CallUpdateAlias uinp) w2 of
                              (Inl err, w3) \<Rightarrow> (Return (Some err), w3)
                            | (Inr _, w3) \<Rightarrow> (Return None, w3)))))"

subsection \<open>The requests the operations build\<close>

abbreviation updateCodeReq :: "('s, 'fs) Function \<Rightarrow> bytes \<Rightarrow> UpdateFunctionCodeInput" where
  "updateCodeReq f z \<equiv> \<lparr>uc_FunctionName = FunctionName f, uc_Publish = True, uc_ZipFile = z\<rparr>"

abbreviation updateAliasReq :: "('s, 'fs) Function \<Rightarrow> string option \<Rightarrow> UpdateAliasInput" where
  "updateAliasReq f v \<equiv>
     \<lparr>ua_FunctionName = FunctionName f, ua_Name = CurrentAlias, ua_FunctionVersion = v\<rparr>"

abbreviation createAliasReq :: "('s, 'fs) Function \<Rightarrow> string option \<Rightarrow> CreateAliasInput" where
  "createAliasReq f v \<equiv>
     \<lparr>ca_FunctionName = FunctionName f, ca_FunctionVersion = v, ca_Name = CurrentAlias\<rparr>"

abbreviation createReq ::
  "('s, 'fs) Function \<Rightarrow> 'fs RuntimeT \<Rightarrow> bytes \<Rightarrow> CreateFunctionInput" where
  "createReq f rt z \<equiv>
     \<lparr>cf_FunctionName = FunctionName f, cf_Description = Description (Config f),
      cf_MemorySize = Memory (Config f), cf_Timeout = Timeout (Config f),
      cf_Runtime = rtName rt, cf_Handler = rtHandler rt, cf_Role = Role (Config f),
      cf_Publish = True, cf_ZipFile = z\<rparr>"

abbreviation getAliasReq :: "('s, 'fs) Function \<Rightarrow> GetAliasInput" where
  "getAliasReq f \<equiv> \<lparr>ga_FunctionName = FunctionName f, ga_Name = CurrentAlias\<rparr>"

abbreviation getFunctionReq :: "('s, 'fs) Function \<Rightarrow> GetFunctionInput" where
  "getFunctionReq f \<equiv> \<lparr>gf_FunctionName = FunctionName f\<rparr>"

abbreviation listVersionsReq :: "('s, 'fs) Function \<Rightarrow> ListVersionsByFunctionInput" where
  "listVersionsReq f \<equiv> \<lparr>lv_FunctionName = FunctionName f\<rparr>"

abbreviation invokeReq ::
  "('fs, 'v) sys \<Rightarrow> ('s, 'fs) Function \<Rightarrow> bytes \<Rightarrow> bytes \<Rightarrow> InvocationType \<Rightarrow> InvokeInput" where
  "invokeReq sy f eventBytes contextBytes kind \<equiv>
     \<lparr>iv_ClientContext = base64Encode sy contextBytes, iv_FunctionName = FunctionName f,
      iv_InvocationType = kind, iv_LogType = ''Tail'', iv_Qualifier = CurrentAlias,
      iv_Payload = eventBytes\<rparr>"

text \<open>The calls an operation added to the trace.\<close>

definition newCalls :: "('s, 'fs) world \<Rightarrow> ('s, 'fs) world \<Rightarrow> call list" where
  "newCalls w w' = drop (length (calls w)) (calls w')"

section \<open>A concrete instance: an in-memory remote and a list-of-files disk\<close>

text \<open>
  An example remote for evaluating the operations: the code hash of the deployed
  function (\<open>None\<close> when there is none), the published versions oldest first, the
  alias "current", a switch that makes every call fail, and the response \<open>Invoke\<close> gives.
\<close>

record mock =
  m_code :: "string option"
  m_versions :: "string list"
  m_alias :: "string option"
  m_down :: bool
  m_reply :: InvokeOutput

definition mockDownErr :: error where
  "mockDownErr = AwsError ''ServiceException'' ''service unavailable''"

definition mockNotFound :: error where
  "mockNotFound = AwsError ''ResourceNotFoundException'' ''not found''"

definition mockHash :: "bytes \<Rightarrow> string" where
  "mockHash b = replicate (length b) (CHR ''#'')"

definition mockNextVersion :: "mock \<Rightarrow> string" where
  "mockNextVersion s = replicate (Suc (length (m_versions s))) (CHR ''I'')"

definition mockPublish :: "bytes \<Rightarrow> mock \<Rightarrow> (error + FunctionConfiguration) \<times> mock" where
  "mockPublish z s =
     (Inr \<lparr>CodeSha256 = Some (mockHash z), Version = Some (mockNextVersion s)\<rparr>,
      s\<lparr>m_code := Some (mockHash z), m_versions := m_versions s @ [mockNextVersion s]\<rparr>)"

definition mockAPI :: "mock LambdaAPI" where
  "mockAPI =
     \<lparr>apiGetFunction = (\<lambda>inp s.
        if m_down s then (Inl mockDownErr, s)
        else (case m_code s of
                None \<Rightarrow> (Inl mockNotFound, s)
              | Some h \<Rightarrow>
                  (Inr \<lparr>Configuration = Some \<lparr>CodeSha256 = Some h, Version = Some ''$LATEST''\<rparr>\<rparr>, s))),
      apiCreateFunction = (\<lambda>inp s.
        if m_down s then (Inl mockDownErr, s) else mockPublish (cf_ZipFile inp) s),
      apiDeleteFunction = (\<lambda>inp s.
        if m_down s then (Inl mockDownErr, s)
        else (Inr (), s\<lparr>m_code := None, m_versions := [], m_alias := None\<rparr>)),
      apiUpdateFunctionCode = (\<lambda>inp s.
        if m_down s then (Inl mockDownErr, s) else mockPublish (uc_ZipFile inp) s),
      apiUpdateFunctionConfiguration = (\<lambda>inp s.
        if m_down s then (Inl mockDownErr, s)
        else (Inr \<lparr>CodeSha256 = m_code s, Version = Some ''$LATEST''\<rparr>, s)),
      apiGetAlias = (\<lambda>inp s.
        if m_down s then (Inl mockDownErr, s)
        else (case m_alias s of
                None \<Rightarrow> (Inl mockNotFound, s)
              | Some v \<Rightarrow> (Inr \<lparr>FunctionVersion = Some v\<rparr>, s))),
      apiCreateAlias = (\<lambda>inp s.
        if m_down s then (Inl mockDownErr, s)
        else (Inr \<lparr>FunctionVersion = ca_FunctionVersion inp\<rparr>,
              s\<lparr>m_alias := ca_FunctionVersion inp\<rparr>)),
      apiUpdateAlias = (\<lambda>inp s.
        if m_down s then (Inl mockDownErr, s)
        else (Inr \<lparr>FunctionVersion = ua_FunctionVersion inp\<rparr>,
              s\<lparr>m_alias := ua_FunctionVersion inp\<rparr>)),
      apiListVersionsByFunction = (\<lambda>inp s.
        if m_down s then (Inl mockDownErr, s)
        else (Inr \<lparr>Versions =
                     Some \<lparr>CodeSha256 = m_code s, Version = Some ''$LATEST''\<rparr> #
                     map (\<lambda>v. Some \<lparr>CodeSha256 = None, Version = Some v\<rparr>) (m_versions s)\<rparr>,
              s)),
      apiInvoke = (\<lambda>inp s.
        if m_down s then (Inl mockDownErr, s) else (Inr (m_reply s), s))\<rparr>"

text \<open>The same remote, except that it lists no version at all, not even the sentinel.\<close>

definition mockAPIEmptyListing :: "mock LambdaAPI" where
  "mockAPIEmptyListing =
     mockAPI\<lparr>apiListVersionsByFunction := (\<lambda>inp s. (Inr \<lparr>Versions = []\<rparr>, s))\<rparr>"

type_synonym files = "(string \<times> bytes) list"

definition nodejsRuntime :: "files RuntimeT" where
  "nodejsRuntime =
     \<lparr>rtName = ''nodejs'', rtHandler = ''index.handle'', Shimmed = False, Compiled = None\<rparr>"

definition golangRuntime :: "files RuntimeT" where
  "golangRuntime =
     \<lparr>rtName = ''nodejs'', rtHandler = ''index.handle'', Shimmed = True,
      Compiled = Some \<lparr>Build = (\<lambda>p d. (None, d @ [(''main'', [0x7F, 0x45])])),
                       CleanHook = (\<lambda>p d. (None, filter (\<lambda>e. fst e \<noteq> ''main'') d))\<rparr>\<rparr>"

text \<open>
  Example collaborators; events are given as their JSON bytes, \<open>None\<close> standing for a
  value that cannot be marshalled.
\<close>

definition exSys :: "(files, bytes option) sys" where
  "exSys =
     \<lparr>Join = (\<lambda>a b. a @ ''/'' @ b),
      osOpen = (\<lambda>d p. case map_of d p of
                         None \<Rightarrow> Inl (ExternalError ''no such file'')
                       | Some b \<Rightarrow> Inr b),
      decodeConfig = (\<lambda>b c. if b = [] then (Some (ExternalError ''EOF''), c) else (None, c)),
      Detect = (\<lambda>d p. Inl (ExternalError ''no runtime detected'')),
      ByName = (\<lambda>n. if n = ''nodejs'' then Inr nodejsRuntime
                     else if n = ''golang'' then Inr golangRuntime
                     else Inl (ErrorString ''invalid runtime'')),
      Sha256 = mockHash,
      MustAsset = (\<lambda>n. if n = ''index.js'' then [0x69] else [0x62]),
      marshalEnv = (\<lambda>m. Inr [0x7B, 0x7D]),
      AddDir = (\<lambda>d p. Inr d),
      zipCloseErr = (\<lambda>z. None),
      zipEncode = (\<lambda>z. concat (map snd z)),
      jsonMarshal = (\<lambda>v. case v of
                            None \<Rightarrow> Inl (ExternalError ''json: unsupported type'')
                          | Some b \<Rightarrow> Inr b),
      base64Encode = (\<lambda>b. replicate (length b) (CHR ''A'')),
      unmarshalInvokeError = (\<lambda>b e.
        if b = [] then Inl (ExternalError ''unexpected end of JSON input'')
        else Inr (e\<lparr>Message := ''boom'', Type := ''Error'', Stack := [''at handler'']\<rparr>))\<rparr>"

definition exConfig :: Config where
  "exConfig =
     \<lparr>Description = ''example'', Runtime = ''nodejs'', Memory = 128, Timeout = 3,
      Role = ''arn:role''\<rparr>"

definition exFunction :: "(mock, files) Function" where
  "exFunction =
     \<lparr>Config = exConfig, Name = ''foo'', FunctionName = ''proj_foo'', Path = ''functions/foo'',
      Service = mockAPI, Log = [], runtime = Some nodejsRuntime, env = None\<rparr>"

definition exReply :: InvokeOutput where
  "exReply = \<lparr>FunctionError = None, LogResult = Some ''bG9n'', Payload = [0x31]\<rparr>"

definition exRemote :: mock where
  "exRemote =
     \<lparr>m_code = Some ''#'', m_versions = [''I'', ''II'', ''III''], m_alias = Some ''III'',
      m_down = False, m_reply = exReply\<rparr>"

definition exWorld :: "(mock, files) world" where
  "exWorld = \<lparr>remote = exRemote, disk = [(''index.js'', [0x61, 0x62])], calls = [], logged = []\<rparr>"

definition exWorldDown :: "(mock, files) world" where
  "exWorldDown = exWorld\<lparr>remote := exRemote\<lparr>m_down := True\<rparr>\<rparr>"

definition exWorldFresh :: "(mock, files) world" where
  "exWorldFresh =
     exWorld\<lparr>remote := exRemote\<lparr>m_code := None, m_versions := [], m_alias := None\<rparr>\<rparr>"

definition exWorldSame :: "(mock, files) world" where
  "exWorldSame = exWorld\<lparr>remote := exRemote\<lparr>m_code := Some ''##''\<rparr>\<rparr>"

definition exWorldAliasII :: "(mock, files) world" where
  "exWorldAliasII = exWorld\<lparr>remote := exRemote\<lparr>m_alias := Some ''II''\<rparr>\<rparr>"

definition exWorldOneVersion :: "(mock, files) world" where
  "exWorldOneVersion = exWorld\<lparr>remote := exRemote\<lparr>m_versions := [''I''], m_alias := Some ''I''\<rparr>\<rparr>"

definition exFunctionEmptyListing :: "(mock, files) Function" where
  "exFunctionEmptyListing = exFunction\<lparr>Service := mockAPIEmptyListing\<rparr>"

text \<open>Two remotes whose function fails: with a payload of some bytes, and with an empty one.\<close>

definition exWorldFnError :: "(mock, files) world" where
  "exWorldFnError =
     exWorld\<lparr>remote := exRemote\<lparr>m_reply :=
       \<lparr>FunctionError = Some ''Handled'', LogResult = Some ''bG9n'', Payload = [0x7B, 0x7D]\<rparr>\<rparr>\<rparr>"

definition exWorldBadPayload :: "(mock, files) world" where
  "exWorldBadPayload =
     exWorld\<lparr>remote := exRemote\<lparr>m_reply :=
       \<lparr>FunctionError = Some ''Unhandled'', LogResult = None, Payload = []\<rparr>\<rparr>\<rparr>"

text \<open>The entries \<open>Zip\<close> injects: the two shim assets, and the environment bundle.\<close>

definition shimEntries :: "('fs, 'v) sys \<Rightarrow> zip_entry list" where
  "shimEntries sy =
     [(''index.js'', MustAsset sy ''index.js''), (''byline.js'', MustAsset sy ''byline.js'')]"

definition envEntries :: "('fs, 'v) sys \<Rightarrow> ('s, 'fs) Function \<Rightarrow> zip_entry list" where
  "envEntries sy f =
     (case env f of
        None \<Rightarrow> []
      | Some m \<Rightarrow> (case marshalEnv sy m of Inl _ \<Rightarrow> [] | Inr b \<Rightarrow> [(''.env.json'', b)]))"

definition exGoFunction :: "(mock, files) Function" where
  "exGoFunction = SetEnv (exFunction\<lparr>runtime := Some golangRuntime\<rparr>) ''STAGE'' ''prod''"



text \<open>
  A payload that names the handled flag itself, \<^verbatim>\<open>{"Handled":true}\<close>. The field
  \<^verbatim>\<open>Handled\<close> of lines 44-49 is exported and carries no \<^verbatim>\<open>json\<close> tag, so
  \<^verbatim>\<open>json.Unmarshal\<close> decodes the object key of that name into it; \<open>exSysKeyed\<close> is
  \<open>exSys\<close> with a decoder that does so on this payload.
\<close>

definition handledKeyPayload :: bytes where
  "handledKeyPayload =
     [0x7B, 0x22, 0x48, 0x61, 0x6E, 0x64, 0x6C, 0x65, 0x64, 0x22, 0x3A, 0x74, 0x72, 0x75, 0x65, 0x7D]"

definition exSysKeyed :: "(files, bytes option) sys" where
  "exSysKeyed =
     exSys\<lparr>unmarshalInvokeError := (\<lambda>b e.
       if b = handledKeyPayload then Inr (e\<lparr>Handled := True\<rparr>)
       else unmarshalInvokeError exSys b e)\<rparr>"

definition exWorldHandledKey :: "(mock, files) world" where
  "exWorldHandledKey =
     exWorld\<lparr>remote := exRemote\<lparr>m_reply :=
       \<lparr>FunctionError = Some ''Unhandled'', LogResult = None, Payload = handledKeyPayload\<rparr>\<rparr>\<rparr>"



section \<open>Properties\<close>

subsection \<open>Steps on the world\<close>

lemma logf_fields [simp]:
  "remote (logf f l m a w) = remote w"
  "calls (logf f l m a w) = calls w"
  "disk (logf f l m a w) = disk w"
  "logged (logf f l m a w) = logged w @ [LogEntry (Log f) l m a]"
  by (simp_all add: logf_def)

lemma perform_fields [simp]:
  "fst (perform m c w) = fst (m (remote w))"
  "remote (snd (perform m c w)) = snd (m (remote w))"
  "calls (snd (perform m c w)) = calls w @ [c]"
  "disk (snd (perform m c w)) = disk w"
  "logged (snd (perform m c w)) = logged w"
  by (simp_all add: perform_def split: prod.splits)

lemma newCalls_append: "calls w' = calls w @ xs \<Longrightarrow> newCalls w w' = xs"
  by (simp add: newCalls_def)

subsection \<open>Create and Update\<close>

lemma Update_ok:
  assumes "apiUpdateFunctionCode (Service f) (updateCodeReq f z) (remote w) = (Inr updated, s)"
  shows "fst (Update f z w) =
           Return (case fst (apiUpdateAlias (Service f) (updateAliasReq f (Version updated)) s) of
                     Inl err \<Rightarrow> Some err | Inr _ \<Rightarrow> None)"
    and "calls (snd (Update f z w)) =
           calls w @ [CallUpdateFunctionCode (updateCodeReq f z),
                      CallUpdateAlias (updateAliasReq f (Version updated))]"
  using assms
  by (auto simp: Update_def perform_def Let_def split: prod.splits sum.splits)

lemma Update_fail:
  assumes "apiUpdateFunctionCode (Service f) (updateCodeReq f z) (remote w) = (Inl err, s)"
  shows "fst (Update f z w) = Return (Some err)"
    and "calls (snd (Update f z w)) = calls w @ [CallUpdateFunctionCode (updateCodeReq f z)]"
  using assms
  by (auto simp: Update_def perform_def Let_def split: prod.splits sum.splits)

lemma Create_ok:
  assumes "runtime f = Some rt"
    and "apiCreateFunction (Service f) (createReq f rt z) (remote w) = (Inr created, s)"
  shows "fst (Create f z w) =
           Return (case fst (apiCreateAlias (Service f) (createAliasReq f (Version created)) s) of
                     Inl err \<Rightarrow> Some err | Inr _ \<Rightarrow> None)"
    and "calls (snd (Create f z w)) =
           calls w @ [CallCreateFunction (createReq f rt z),
                      CallCreateAlias (createAliasReq f (Version created))]"
  using assms
  by (auto simp: Create_def perform_def Let_def split: prod.splits sum.splits)

lemma Create_fail:
  assumes "runtime f = Some rt"
    and "apiCreateFunction (Service f) (createReq f rt z) (remote w) = (Inl err, s)"
  shows "fst (Create f z w) = Return (Some err)"
    and "calls (snd (Create f z w)) = calls w @ [CallCreateFunction (createReq f rt z)]"
  using assms
  by (auto simp: Create_def perform_def Let_def split: prod.splits sum.splits)

text \<open>
  C6. \<^verbatim>\<open>Update\<close> and \<^verbatim>\<open>Create\<close> each make the code call first. When it succeeds, the
  calls of the operation are that call followed by one alias write, which sets "current"
  to the version the call returned, and the operation returns what the alias write
  returned. When it fails, the operation returns that error and the code call is its
  only remote call.
\<close>

theorem create_update_alias_write:
  "(apiUpdateFunctionCode (Service f) (updateCodeReq f z) (remote w) = (Inr updated, s) \<longrightarrow>
      fst (Update f z w) =
        Return (case fst (apiUpdateAlias (Service f) (updateAliasReq f (Version updated)) s) of
                  Inl err \<Rightarrow> Some err | Inr _ \<Rightarrow> None) \<and>
      newCalls w (snd (Update f z w)) =
        [CallUpdateFunctionCode (updateCodeReq f z),
         CallUpdateAlias (updateAliasReq f (Version updated))] \<and>
      length (filter isAliasWrite (newCalls w (snd (Update f z w)))) = 1) \<and>
   (apiUpdateFunctionCode (Service f) (updateCodeReq f z) (remote w) = (Inl err, s) \<longrightarrow>
      fst (Update f z w) = Return (Some err) \<and>
      newCalls w (snd (Update f z w)) = [CallUpdateFunctionCode (updateCodeReq f z)]) \<and>
   (runtime f = Some rt \<and>
    apiCreateFunction (Service f) (createReq f rt z) (remote w) = (Inr created, s) \<longrightarrow>
      fst (Create f z w) =
        Return (case fst (apiCreateAlias (Service f) (createAliasReq f (Version created)) s) of
                  Inl err \<Rightarrow> Some err | Inr _ \<Rightarrow> None) \<and>
      newCalls w (snd (Create f z w)) =
        [CallCreateFunction (createReq f rt z),
         CallCreateAlias (createAliasReq f (Version created))] \<and>
      length (filter isAliasWrite (newCalls w (snd (Create f z w)))) = 1) \<and>
   (runtime f = Some rt \<and>
    apiCreateFunction (Service f) (createReq f rt z) (remote w) = (Inl err, s) \<longrightarrow>
      fst (Create f z w) = Return (Some err) \<and>
      newCalls w (snd (Create f z w)) = [CallCreateFunction (createReq f rt z)])"
proof (intro conjI impI)
  assume h: "apiUpdateFunctionCode (Service f) (updateCodeReq f z) (remote w) = (Inr updated, s)"
  show "fst (Update f z w) =
        Return (case fst (apiUpdateAlias (Service f) (updateAliasReq f (Version updated)) s) of
                  Inl err \<Rightarrow> Some err | Inr _ \<Rightarrow> None)"
    by (rule Update_ok(1) [OF h])
  show c: "newCalls w (snd (Update f z w)) =
        [CallUpdateFunctionCode (updateCodeReq f z),
         CallUpdateAlias (updateAliasReq f (Version updated))]"
    by (rule newCalls_append [OF Update_ok(2) [OF h]])
  show "length (filter isAliasWrite (newCalls w (snd (Update f z w)))) = 1"
    by (simp add: c)
next
  assume h: "apiUpdateFunctionCode (Service f) (updateCodeReq f z) (remote w) = (Inl err, s)"
  show "fst (Update f z w) = Return (Some err)"
    by (rule Update_fail(1) [OF h])
  show "newCalls w (snd (Update f z w)) = [CallUpdateFunctionCode (updateCodeReq f z)]"
    by (rule newCalls_append [OF Update_fail(2) [OF h]])
next
  assume "runtime f = Some rt \<and>
    apiCreateFunction (Service f) (createReq f rt z) (remote w) = (Inr created, s)"
  then have r: "runtime f = Some rt"
    and h: "apiCreateFunction (Service f) (createReq f rt z) (remote w) = (Inr created, s)"
    by simp_all
  show "fst (Create f z w) =
        Return (case fst (apiCreateAlias (Service f) (createAliasReq f (Version created)) s) of
                  Inl err \<Rightarrow> Some err | Inr _ \<Rightarrow> None)"
    by (rule Create_ok(1) [OF r h])
  show c: "newCalls w (snd (Create f z w)) =
        [CallCreateFunction (createReq f rt z),
         CallCreateAlias (createAliasReq f (Version created))]"
    by (rule newCalls_append [OF Create_ok(2) [OF r h]])
  show "length (filter isAliasWrite (newCalls w (snd (Create f z w)))) = 1"
    by (simp add: c)
next
  assume "runtime f = Some rt \<and>
    apiCreateFunction (Service f) (createReq f rt z) (remote w) = (Inl err, s)"
  then have r: "runtime f = Some rt"
    and h: "apiCreateFunction (Service f) (createReq f rt z) (remote w) = (Inl err, s)"
    by simp_all
  show "fst (Create f z w) = Return (Some err)"
    by (rule Create_fail(1) [OF r h])
  show "newCalls w (snd (Create f z w)) = [CallCreateFunction (createReq f rt z)]"
    by (rule newCalls_append [OF Create_fail(2) [OF r h]])
qed

lemmas ex_defs =
  exFunction_def exWorld_def exWorldDown_def exWorldFresh_def exRemote_def exReply_def
  exConfig_def mockAPI_def mockPublish_def mockHash_def mockNextVersion_def
  nodejsRuntime_def CurrentAlias_def

theorem create_update_alias_write_witness:
  "fst (Update exFunction [1, 2] exWorld) = Return None \<and>
   newCalls exWorld (snd (Update exFunction [1, 2] exWorld)) =
     [CallUpdateFunctionCode (updateCodeReq exFunction [1, 2]),
      CallUpdateAlias (updateAliasReq exFunction (Some ''IIII''))] \<and>
   fst (Update exFunction [1, 2] exWorldDown) = Return (Some mockDownErr) \<and>
   newCalls exWorldDown (snd (Update exFunction [1, 2] exWorldDown)) =
     [CallUpdateFunctionCode (updateCodeReq exFunction [1, 2])] \<and>
   fst (Create exFunction [1, 2] exWorldFresh) = Return None \<and>
   newCalls exWorldFresh (snd (Create exFunction [1, 2] exWorldFresh)) =
     [CallCreateFunction (createReq exFunction nodejsRuntime [1, 2]),
      CallCreateAlias (createAliasReq exFunction (Some ''I''))] \<and>
   fst (Create exFunction [1, 2] exWorldDown) = Return (Some mockDownErr) \<and>
   newCalls exWorldDown (snd (Create exFunction [1, 2] exWorldDown)) =
     [CallCreateFunction (createReq exFunction nodejsRuntime [1, 2])]"
proof -
  have u1: "apiUpdateFunctionCode (Service exFunction) (updateCodeReq exFunction [1, 2])
              (remote exWorld) =
            (Inr \<lparr>CodeSha256 = Some ''##'', Version = Some ''IIII''\<rparr>,
             exRemote\<lparr>m_code := Some ''##'', m_versions := [''I'', ''II'', ''III'', ''IIII'']\<rparr>)"
    by (simp add: ex_defs)
  have u2: "apiUpdateFunctionCode (Service exFunction) (updateCodeReq exFunction [1, 2])
              (remote exWorldDown) = (Inl mockDownErr, exRemote\<lparr>m_down := True\<rparr>)"
    by (simp add: ex_defs)
  have c1: "runtime exFunction = Some nodejsRuntime \<and>
            apiCreateFunction (Service exFunction) (createReq exFunction nodejsRuntime [1, 2])
              (remote exWorldFresh) =
            (Inr \<lparr>CodeSha256 = Some ''##'', Version = Some ''I''\<rparr>,
             exRemote\<lparr>m_code := Some ''##'', m_versions := [''I''], m_alias := None\<rparr>)"
    by (simp add: ex_defs)
  have c2: "runtime exFunction = Some nodejsRuntime \<and>
            apiCreateFunction (Service exFunction) (createReq exFunction nodejsRuntime [1, 2])
              (remote exWorldDown) = (Inl mockDownErr, exRemote\<lparr>m_down := True\<rparr>)"
    by (simp add: ex_defs)
  have a1: "fst (apiUpdateAlias (Service exFunction) (updateAliasReq exFunction (Some ''IIII''))
              (exRemote\<lparr>m_code := Some ''##'', m_versions := [''I'', ''II'', ''III'', ''IIII'']\<rparr>))
            = Inr \<lparr>FunctionVersion = Some ''IIII''\<rparr>"
    by (simp add: ex_defs)
  have a2: "fst (apiCreateAlias (Service exFunction) (createAliasReq exFunction (Some ''I''))
              (exRemote\<lparr>m_code := Some ''##'', m_versions := [''I''], m_alias := None\<rparr>))
            = Inr \<lparr>FunctionVersion = Some ''I''\<rparr>"
    by (simp add: ex_defs)
  note t1 = create_update_alias_write [THEN conjunct1, rule_format, OF u1]
  note t2 = create_update_alias_write [THEN conjunct2, THEN conjunct1, rule_format, OF u2]
  note t3 = create_update_alias_write
              [THEN conjunct2, THEN conjunct2, THEN conjunct1, rule_format, OF c1]
  note t4 = create_update_alias_write
              [THEN conjunct2, THEN conjunct2, THEN conjunct2, rule_format, OF c2]
  show ?thesis
    using t1 t2 t3 t4 by (simp add: a1 a2)
qed

subsection \<open>Building the archive touches neither the remote nor the call trace\<close>

lemma zipBuild_world [simp]:
  "remote (snd (zipBuild f w)) = remote w"
  "calls (snd (zipBuild f w)) = calls w"
  by (simp_all add: zipBuild_def split: option.split prod.split)

lemma zipEnv_world [simp]:
  "remote (snd (zipEnv sy f w)) = remote w"
  "calls (snd (zipEnv sy f w)) = calls w"
  "disk (snd (zipEnv sy f w)) = disk w"
  by (simp_all add: zipEnv_def split: option.split sum.split)

lemma zipShim_world [simp]:
  "remote (snd (zipShim sy f z w)) = remote w"
  "calls (snd (zipShim sy f z w)) = calls w"
  "disk (snd (zipShim sy f z w)) = disk w"
  by (simp_all add: zipShim_def split: option.split)

lemma Zip_snd:
  "snd (Zip sy f w) =
     (case fst (zipBuild f w) of
        Some err \<Rightarrow> snd (zipBuild f w)
      | None \<Rightarrow>
          (case fst (zipEnv sy f (snd (zipBuild f w))) of
             Inl err \<Rightarrow> snd (zipEnv sy f (snd (zipBuild f w)))
           | Inr z1 \<Rightarrow> snd (zipShim sy f z1 (snd (zipEnv sy f (snd (zipBuild f w)))))))"
  by (simp add: Zip_def split: prod.split option.split sum.split go.split)

lemma Zip_world:
  "remote (snd (Zip sy f w)) = remote w"
  "calls (snd (Zip sy f w)) = calls w"
  by (simp_all add: Zip_snd split: option.split sum.split)

lemma zipBuild_disk_only:
  "disk w = disk w' \<Longrightarrow> fst (zipBuild f w) = fst (zipBuild f w')"
  "disk w = disk w' \<Longrightarrow> disk (snd (zipBuild f w)) = disk (snd (zipBuild f w'))"
  by (simp_all add: zipBuild_def split: option.split prod.split)

lemma zipEnv_fst: "fst (zipEnv sy f w) = fst (zipEnv sy f w')"
  by (simp add: zipEnv_def split: option.split sum.split)

lemma zipShim_fst: "fst (zipShim sy f z w) = fst (zipShim sy f z w')"
  by (simp add: zipShim_def split: option.split)

lemma zipFinish_disk_only: "disk w = disk w' \<Longrightarrow> zipFinish sy f z w = zipFinish sy f z w'"
  by (simp add: zipFinish_def)

text \<open>The result of \<open>Zip\<close>, stage by stage.\<close>

lemma Zip_fst:
  "fst (Zip sy f w) =
     (case fst (zipBuild f w) of
        Some err \<Rightarrow> Return (Inl (CompileError err))
      | None \<Rightarrow>
          (case fst (zipEnv sy f w) of
             Inl err \<Rightarrow> Return (Inl err)
           | Inr z1 \<Rightarrow>
               (case fst (zipShim sy f z1 w) of
                  Panic p \<Rightarrow> Panic p
                | Return z2 \<Rightarrow> Return (zipFinish sy f z2 (snd (zipBuild f w))))))"
proof -
  have e: "fst (zipEnv sy f (snd (zipBuild f w))) = fst (zipEnv sy f w)"
    by (rule zipEnv_fst)
  have s: "\<And>z w'. fst (zipShim sy f z w') = fst (zipShim sy f z w)"
    by (rule zipShim_fst)
  have d: "\<And>z z1. zipFinish sy f z (snd (zipShim sy f z1 (snd (zipEnv sy f (snd (zipBuild f w))))))
             = zipFinish sy f z (snd (zipBuild f w))"
    by (rule zipFinish_disk_only) simp
  have "fst (Zip sy f w) =
     (case fst (zipBuild f w) of
        Some err \<Rightarrow> Return (Inl (CompileError err))
      | None \<Rightarrow>
          (case fst (zipEnv sy f (snd (zipBuild f w))) of
             Inl err \<Rightarrow> Return (Inl err)
           | Inr z1 \<Rightarrow>
               (case fst (zipShim sy f z1 (snd (zipEnv sy f (snd (zipBuild f w))))) of
                  Panic p \<Rightarrow> Panic p
                | Return z2 \<Rightarrow>
                    Return (zipFinish sy f z2
                      (snd (zipShim sy f z1 (snd (zipEnv sy f (snd (zipBuild f w))))))))))"
    by (simp add: Zip_def split: prod.split option.split sum.split go.split)
  then show ?thesis
    by (simp add: e d s [of _ "snd (zipEnv sy f (snd (zipBuild f w)))"] cong: option.case_cong sum.case_cong go.case_cong)
qed

lemma Zip_disk_only:
  "disk w = disk w' \<Longrightarrow> fst (Zip sy f w) = fst (Zip sy f w')"
  by (simp add: Zip_fst zipBuild_disk_only [of w w'] zipEnv_fst [of sy f w w']
      zipShim_fst [of sy f _ w w'] zipFinish_disk_only [of "snd (zipBuild f w)" "snd (zipBuild f w')"]
      cong: option.case_cong sum.case_cong go.case_cong)

lemma Zip_runtime:
  "fst (Zip sy f w) = Return (Inr es) \<Longrightarrow> runtime f \<noteq> None"
  by (auto simp: Zip_fst zipShim_def split: option.splits sum.splits go.splits)

lemma ZipBytes_world:
  "remote (snd (ZipBytes sy f w)) = remote w"
  "calls (snd (ZipBytes sy f w)) = calls w"
  using Zip_world [of sy f "logf f DebugLevel ''creating zip'' [] w"]
  by (auto simp: ZipBytes_def Let_def split: go.splits prod.splits sum.splits)

lemma ZipBytes_fst:
  "fst (ZipBytes sy f w) =
     (case fst (Zip sy f w) of
        Panic p \<Rightarrow> Panic p
      | Return (Inl err) \<Rightarrow> Return (Inl err)
      | Return (Inr r) \<Rightarrow> Return (Inr (zipEncode sy r)))"
  using Zip_disk_only [of "logf f DebugLevel ''creating zip'' [] w" w sy f]
  by (auto simp: ZipBytes_def Let_def split: go.splits prod.splits sum.splits)

lemma ZipBytes_disk_only:
  "disk w = disk w' \<Longrightarrow> fst (ZipBytes sy f w) = fst (ZipBytes sy f w')"
  by (simp add: ZipBytes_fst Zip_disk_only [of w w'])

lemma ZipBytes_runtime:
  "fst (ZipBytes sy f w) = Return (Inr z) \<Longrightarrow> runtime f \<noteq> None"
  by (auto simp: ZipBytes_fst split: go.splits sum.splits dest: Zip_runtime)

subsection \<open>DeployCode\<close>

lemma Info_fields [simp]:
  "fst (Info f w) = fst (apiGetFunction (Service f) (getFunctionReq f) (remote w))"
  "remote (snd (Info f w)) = snd (apiGetFunction (Service f) (getFunctionReq f) (remote w))"
  "calls (snd (Info f w)) = calls w @ [CallGetFunction (getFunctionReq f)]"
  by (simp_all add: Info_def Let_def)

text \<open>
  Once the archive is built, \<open>DeployCode\<close> is a function of the answer to the query:
  \<open>w2\<close> is the world right after the query.
\<close>

lemma DeployCode_after_query:
  assumes z: "fst (ZipBytes sy f w) = Return (Inr z)"
    and q: "apiGetFunction (Service f) (getFunctionReq f) (remote w) = (r, s)"
  shows "\<exists>w2. remote w2 = s \<and> calls w2 = calls w @ [CallGetFunction (getFunctionReq f)] \<and>
           DeployCode sy f w =
             (if isNotFound r then Create f z w2
              else (case r of
                      Inl err \<Rightarrow> (Return (Some err), w2)
                    | Inr info \<Rightarrow>
                        (case Configuration info of
                           None \<Rightarrow> (Panic NilDereference, w2)
                         | Some c \<Rightarrow>
                             (case CodeSha256 c of
                                None \<Rightarrow> (Panic NilDereference, w2)
                              | Some remoteHash \<Rightarrow>
                                  if Sha256 sy z = remoteHash
                                  then (Return None, logf f InfoLevel ''unchanged'' [] w2)
                                  else Update f z w2))))"
proof -
  let ?w0 = "logf f InfoLevel ''deploying'' [] w"
  obtain x w1 where zb: "ZipBytes sy f ?w0 = (x, w1)"
    by (cases "ZipBytes sy f ?w0")
  have "fst (ZipBytes sy f ?w0) = Return (Inr z)"
    using z ZipBytes_disk_only [of ?w0 w sy f] by simp
  with zb have x: "x = Return (Inr z)" by simp
  have r1: "remote w1 = remote w" and c1: "calls w1 = calls w"
    using ZipBytes_world [of sy f ?w0] zb by simp_all
  obtain r' w2 where i: "Info f w1 = (r', w2)"
    by (cases "Info f w1")
  have r': "r' = r"
    using Info_fields(1) [of f w1] i q r1 by simp
  have "remote w2 = s"
    using Info_fields(2) [of f w1] i q r1 by simp
  moreover have "calls w2 = calls w @ [CallGetFunction (getFunctionReq f)]"
    using Info_fields(3) [of f w1] i c1 by simp
  moreover have "DeployCode sy f w =
             (if isNotFound r then Create f z w2
              else (case r of
                      Inl err \<Rightarrow> (Return (Some err), w2)
                    | Inr info \<Rightarrow>
                        (case Configuration info of
                           None \<Rightarrow> (Panic NilDereference, w2)
                         | Some c \<Rightarrow>
                             (case CodeSha256 c of
                                None \<Rightarrow> (Panic NilDereference, w2)
                              | Some remoteHash \<Rightarrow>
                                  if Sha256 sy z = remoteHash
                                  then (Return None, logf f InfoLevel ''unchanged'' [] w2)
                                  else Update f z w2))))"
    by (simp add: DeployCode_def zb x i r' Let_def split: sum.split option.split)
  ultimately show ?thesis by blast
qed

text \<open>The calls of \<open>Create\<close> and \<open>Update\<close>, whatever the remote answers.\<close>

lemma Create_calls:
  assumes "runtime f = Some rt"
  shows "\<exists>rest. calls (snd (Create f z w)) = calls w @ CallCreateFunction (createReq f rt z) # rest \<and>
           (rest = [] \<or> (\<exists>v. rest = [CallCreateAlias (createAliasReq f v)]))"
proof (cases "apiCreateFunction (Service f) (createReq f rt z) (remote w)")
  case (Pair a s)
  then show ?thesis
    using Create_ok(2) [OF assms, of z w _ s] Create_fail(2) [OF assms, of z w _ s]
    by (cases a) auto
qed

lemma Update_calls:
  "\<exists>rest. calls (snd (Update f z w)) = calls w @ CallUpdateFunctionCode (updateCodeReq f z) # rest \<and>
           (rest = [] \<or> (\<exists>v. rest = [CallUpdateAlias (updateAliasReq f v)]))"
proof (cases "apiUpdateFunctionCode (Service f) (updateCodeReq f z) (remote w)")
  case (Pair a s)
  then show ?thesis
    using Update_ok(2) [of f z w _ s] Update_fail(2) [of f z w _ s]
    by (cases a) auto
qed

lemma newCalls_after_query:
  assumes "calls w2 = calls w @ [c]" and "calls w3 = calls w2 @ xs"
  shows "newCalls w w3 = c # xs"
  using assms by (simp add: newCalls_def)

text \<open>
  C1. After the archive \<open>z\<close> is built and the remote has answered the query with \<open>r\<close>:
  on "not found" \<open>DeployCode\<close> is \<open>Create\<close> run after the query, with one create-function
  call and no update-code call; on any other error it returns that error and the query
  is its only remote call; when the remote reports the hash \<open>h\<close> and the local hash
  equals it, it returns success, the query is its only remote call (no mutation), and
  its last log line is "unchanged"; when the hashes differ it is \<open>Update\<close> run after the
  query, with one update-code call and no create-function call.
\<close>

theorem deploy_code_decision:
  assumes z: "fst (ZipBytes sy f w) = Return (Inr z)"
    and q: "apiGetFunction (Service f) (getFunctionReq f) (remote w) = (r, s)"
  shows
    "(isNotFound r \<longrightarrow>
        (\<exists>w2. remote w2 = s \<and> calls w2 = calls w @ [CallGetFunction (getFunctionReq f)] \<and>
              DeployCode sy f w = Create f z w2) \<and>
        length (filter isCreateFunction (newCalls w (snd (DeployCode sy f w)))) = 1 \<and>
        filter isUpdateFunctionCode (newCalls w (snd (DeployCode sy f w))) = []) \<and>
     (r = Inl err \<and> \<not> isNotFound r \<longrightarrow>
        fst (DeployCode sy f w) = Return (Some err) \<and>
        newCalls w (snd (DeployCode sy f w)) = [CallGetFunction (getFunctionReq f)] \<and>
        filter isMutation (newCalls w (snd (DeployCode sy f w))) = []) \<and>
     (r = Inr info \<and> Configuration info = Some c \<and> CodeSha256 c = Some h \<and> Sha256 sy z = h \<longrightarrow>
        fst (DeployCode sy f w) = Return None \<and>
        newCalls w (snd (DeployCode sy f w)) = [CallGetFunction (getFunctionReq f)] \<and>
        filter isMutation (newCalls w (snd (DeployCode sy f w))) = [] \<and>
        last (logged (snd (DeployCode sy f w))) = LogEntry (Log f) InfoLevel ''unchanged'' []) \<and>
     (r = Inr info \<and> Configuration info = Some c \<and> CodeSha256 c = Some h \<and> Sha256 sy z \<noteq> h \<longrightarrow>
        (\<exists>w2. remote w2 = s \<and> calls w2 = calls w @ [CallGetFunction (getFunctionReq f)] \<and>
              DeployCode sy f w = Update f z w2) \<and>
        length (filter isUpdateFunctionCode (newCalls w (snd (DeployCode sy f w)))) = 1 \<and>
        filter isCreateFunction (newCalls w (snd (DeployCode sy f w))) = [])"
proof -
  let ?g = "CallGetFunction (getFunctionReq f)"
  obtain w2 where rs: "remote w2 = s" and cs: "calls w2 = calls w @ [?g]"
    and d: "DeployCode sy f w =
             (if isNotFound r then Create f z w2
              else (case r of
                      Inl err \<Rightarrow> (Return (Some err), w2)
                    | Inr info \<Rightarrow>
                        (case Configuration info of
                           None \<Rightarrow> (Panic NilDereference, w2)
                         | Some c \<Rightarrow>
                             (case CodeSha256 c of
                                None \<Rightarrow> (Panic NilDereference, w2)
                              | Some remoteHash \<Rightarrow>
                                  if Sha256 sy z = remoteHash
                                  then (Return None, logf f InfoLevel ''unchanged'' [] w2)
                                  else Update f z w2))))"
    using DeployCode_after_query [OF z q] by blast
  obtain rt where rt: "runtime f = Some rt"
    using ZipBytes_runtime [OF z] by blast
  have g: "newCalls w w2 = [?g]"
    using cs by (rule newCalls_append)
  have one: "isNotFound r \<longrightarrow>
        (\<exists>w2. remote w2 = s \<and> calls w2 = calls w @ [?g] \<and> DeployCode sy f w = Create f z w2) \<and>
        length (filter isCreateFunction (newCalls w (snd (DeployCode sy f w)))) = 1 \<and>
        filter isUpdateFunctionCode (newCalls w (snd (DeployCode sy f w))) = []"
  proof
    assume nf: "isNotFound r"
    then have dc: "DeployCode sy f w = Create f z w2" using d by simp
    obtain rest where c: "calls (snd (Create f z w2)) =
                            calls w2 @ CallCreateFunction (createReq f rt z) # rest"
      and rest: "rest = [] \<or> (\<exists>v. rest = [CallCreateAlias (createAliasReq f v)])"
      using Create_calls [OF rt, of z w2] by blast
    have n: "newCalls w (snd (DeployCode sy f w)) =
               ?g # CallCreateFunction (createReq f rt z) # rest"
      unfolding dc using cs c by (rule newCalls_after_query)
    show "(\<exists>w2. remote w2 = s \<and> calls w2 = calls w @ [?g] \<and> DeployCode sy f w = Create f z w2) \<and>
        length (filter isCreateFunction (newCalls w (snd (DeployCode sy f w)))) = 1 \<and>
        filter isUpdateFunctionCode (newCalls w (snd (DeployCode sy f w))) = []"
      using rs cs dc rest unfolding n by auto
  qed
  have two: "r = Inl err \<and> \<not> isNotFound r \<longrightarrow>
        fst (DeployCode sy f w) = Return (Some err) \<and>
        newCalls w (snd (DeployCode sy f w)) = [?g] \<and>
        filter isMutation (newCalls w (snd (DeployCode sy f w))) = []"
    using d g by auto
  have three: "r = Inr info \<and> Configuration info = Some c \<and> CodeSha256 c = Some h \<and>
        Sha256 sy z = h \<longrightarrow>
        fst (DeployCode sy f w) = Return None \<and>
        newCalls w (snd (DeployCode sy f w)) = [?g] \<and>
        filter isMutation (newCalls w (snd (DeployCode sy f w))) = [] \<and>
        last (logged (snd (DeployCode sy f w))) = LogEntry (Log f) InfoLevel ''unchanged'' []"
    using d g by (auto simp: newCalls_def)
  have four: "r = Inr info \<and> Configuration info = Some c \<and> CodeSha256 c = Some h \<and>
        Sha256 sy z \<noteq> h \<longrightarrow>
        (\<exists>w2. remote w2 = s \<and> calls w2 = calls w @ [?g] \<and> DeployCode sy f w = Update f z w2) \<and>
        length (filter isUpdateFunctionCode (newCalls w (snd (DeployCode sy f w)))) = 1 \<and>
        filter isCreateFunction (newCalls w (snd (DeployCode sy f w))) = []"
  proof
    assume a: "r = Inr info \<and> Configuration info = Some c \<and> CodeSha256 c = Some h \<and>
        Sha256 sy z \<noteq> h"
    then have dc: "DeployCode sy f w = Update f z w2" using d by simp
    obtain rest where c: "calls (snd (Update f z w2)) =
                            calls w2 @ CallUpdateFunctionCode (updateCodeReq f z) # rest"
      and rest: "rest = [] \<or> (\<exists>v. rest = [CallUpdateAlias (updateAliasReq f v)])"
      using Update_calls [of f z w2] by blast
    have n: "newCalls w (snd (DeployCode sy f w)) =
               ?g # CallUpdateFunctionCode (updateCodeReq f z) # rest"
      unfolding dc using cs c by (rule newCalls_after_query)
    show "(\<exists>w2. remote w2 = s \<and> calls w2 = calls w @ [?g] \<and> DeployCode sy f w = Update f z w2) \<and>
        length (filter isUpdateFunctionCode (newCalls w (snd (DeployCode sy f w)))) = 1 \<and>
        filter isCreateFunction (newCalls w (snd (DeployCode sy f w))) = []"
      using rs cs dc rest unfolding n by auto
  qed
  from one two three four show ?thesis by blast
qed

lemmas zip_defs =
  ZipBytes_def Zip_def zipBuild_def zipEnv_def zipShim_def zipFinish_def exSys_def logf_def

theorem deploy_code_decision_witness:
  "length (filter isCreateFunction
     (newCalls exWorldFresh (snd (DeployCode exSys exFunction exWorldFresh)))) = 1 \<and>
   filter isUpdateFunctionCode
     (newCalls exWorldFresh (snd (DeployCode exSys exFunction exWorldFresh))) = [] \<and>
   fst (DeployCode exSys exFunction exWorldDown) = Return (Some mockDownErr) \<and>
   newCalls exWorldDown (snd (DeployCode exSys exFunction exWorldDown)) =
     [CallGetFunction (getFunctionReq exFunction)] \<and>
   fst (DeployCode exSys exFunction exWorldSame) = Return None \<and>
   filter isMutation (newCalls exWorldSame (snd (DeployCode exSys exFunction exWorldSame))) = [] \<and>
   last (logged (snd (DeployCode exSys exFunction exWorldSame))) =
     LogEntry [] InfoLevel ''unchanged'' [] \<and>
   length (filter isUpdateFunctionCode
     (newCalls exWorld (snd (DeployCode exSys exFunction exWorld)))) = 1 \<and>
   filter isCreateFunction (newCalls exWorld (snd (DeployCode exSys exFunction exWorld))) = []"
proof -
  have z: "\<And>w. disk w = [(''index.js'', [0x61, 0x62])] \<Longrightarrow>
             fst (ZipBytes exSys exFunction w) = Return (Inr [0x61, 0x62])"
    by (simp add: zip_defs exFunction_def nodejsRuntime_def)
  have z1: "fst (ZipBytes exSys exFunction exWorldFresh) = Return (Inr [0x61, 0x62])"
    and z2: "fst (ZipBytes exSys exFunction exWorldDown) = Return (Inr [0x61, 0x62])"
    and z3: "fst (ZipBytes exSys exFunction exWorldSame) = Return (Inr [0x61, 0x62])"
    and z4: "fst (ZipBytes exSys exFunction exWorld) = Return (Inr [0x61, 0x62])"
    by (rule z, simp add: exWorld_def exWorldFresh_def exWorldDown_def exWorldSame_def)+
  have q1: "apiGetFunction (Service exFunction) (getFunctionReq exFunction) (remote exWorldFresh)
            = (Inl mockNotFound, remote exWorldFresh)"
    by (simp add: ex_defs)
  have q2: "apiGetFunction (Service exFunction) (getFunctionReq exFunction) (remote exWorldDown)
            = (Inl mockDownErr, remote exWorldDown)"
    by (simp add: ex_defs)
  have q3: "apiGetFunction (Service exFunction) (getFunctionReq exFunction) (remote exWorldSame)
            = (Inr \<lparr>Configuration = Some \<lparr>CodeSha256 = Some ''##'', Version = Some ''$LATEST''\<rparr>\<rparr>,
               remote exWorldSame)"
    by (simp add: ex_defs exWorldSame_def)
  have q4: "apiGetFunction (Service exFunction) (getFunctionReq exFunction) (remote exWorld)
            = (Inr \<lparr>Configuration = Some \<lparr>CodeSha256 = Some ''#'', Version = Some ''$LATEST''\<rparr>\<rparr>,
               remote exWorld)"
    by (simp add: ex_defs)
  have h: "Sha256 exSys [0x61, 0x62] = ''##''"
    by (simp add: exSys_def mockHash_def)
  have l: "Log exFunction = []"
    by (simp add: exFunction_def)
  note t1 = deploy_code_decision [OF z1 q1, THEN conjunct1]
  note t2 = deploy_code_decision [OF z2 q2, of mockDownErr, THEN conjunct2, THEN conjunct1]
  note t3 = deploy_code_decision [OF z3 q3, of _
              "\<lparr>Configuration = Some \<lparr>CodeSha256 = Some ''##'', Version = Some ''$LATEST''\<rparr>\<rparr>"
              "\<lparr>CodeSha256 = Some ''##'', Version = Some ''$LATEST''\<rparr>" "''##''",
              THEN conjunct2, THEN conjunct2, THEN conjunct1]
  note t4 = deploy_code_decision [OF z4 q4, of _
              "\<lparr>Configuration = Some \<lparr>CodeSha256 = Some ''#'', Version = Some ''$LATEST''\<rparr>\<rparr>"
              "\<lparr>CodeSha256 = Some ''#'', Version = Some ''$LATEST''\<rparr>" "''#''",
              THEN conjunct2, THEN conjunct2, THEN conjunct2]
  have n1: "isNotFound (Inl mockNotFound :: error + GetFunctionOutput)"
    and n2: "\<not> isNotFound (Inl mockDownErr :: error + GetFunctionOutput)"
    by (simp_all add: mockNotFound_def mockDownErr_def)
  show ?thesis
    using t1 t2 t3 t4 by (simp add: n1 n2 h l)
qed

subsection \<open>Rollback and RollbackVersion\<close>

lemma Rollback_listed:
  assumes a: "apiGetAlias (Service f) (getAliasReq f) (remote w) = (Inr alias, s1)"
    and v: "FunctionVersion alias = Some cur"
    and l: "apiListVersionsByFunction (Service f) (listVersionsReq f) s1 = (Inr lst, s2)"
  shows "\<exists>w2. remote w2 = s2 \<and>
           calls w2 = calls w @ [CallGetAlias (getAliasReq f),
                                 CallListVersionsByFunction (listVersionsReq f)] \<and>
           Rollback f w =
             (case Versions lst of
                [] \<Rightarrow> (Panic SliceBoundsOutOfRange, w2)
              | _ # versions \<Rightarrow>
                  if length versions < 2 then (Return (Some errOnlyOne), w2)
                  else
                    (case derefVersion (versions ! (length versions - 1)) of
                       None \<Rightarrow> (Panic NilDereference, w2)
                     | Some latest \<Rightarrow>
                         (case derefVersion (versions ! (length versions - 2)) of
                            None \<Rightarrow> (Panic NilDereference, w2)
                          | Some prev \<Rightarrow>
                              (case perform (apiUpdateAlias (Service f)
                                       (updateAliasReq f (Some (if cur = latest then prev else latest))))
                                      (CallUpdateAlias
                                         (updateAliasReq f (Some (if cur = latest then prev else latest))))
                                      (logf f InfoLevel ''rollback to version: %s''
                                         [ArgString (if cur = latest then prev else latest)] w2) of
                                 (Inl err, w3) \<Rightarrow> (Return (Some err), w3)
                               | (Inr _, w3) \<Rightarrow> (Return None, w3)))))"
proof -
  let ?w0 = "logf f InfoLevel ''rolling back'' [] w"
  obtain r1 w1 where p1: "perform (apiGetAlias (Service f) (getAliasReq f))
                            (CallGetAlias (getAliasReq f)) ?w0 = (r1, w1)"
    by (cases "perform (apiGetAlias (Service f) (getAliasReq f)) (CallGetAlias (getAliasReq f)) ?w0")
  have r1: "r1 = Inr alias" and s1: "remote w1 = s1"
    and c1: "calls w1 = calls w @ [CallGetAlias (getAliasReq f)]"
    using p1 a by (auto simp: perform_def)
  let ?w1' = "logf f InfoLevel ''current version: %s'' [ArgString cur] w1"
  obtain r2 w2 where p2: "perform (apiListVersionsByFunction (Service f) (listVersionsReq f))
                            (CallListVersionsByFunction (listVersionsReq f)) ?w1' = (r2, w2)"
    by (cases "perform (apiListVersionsByFunction (Service f) (listVersionsReq f))
                 (CallListVersionsByFunction (listVersionsReq f)) ?w1'")
  have r2: "r2 = Inr lst" and s2: "remote w2 = s2"
    and c2: "calls w2 = calls w @ [CallGetAlias (getAliasReq f),
                                   CallListVersionsByFunction (listVersionsReq f)]"
    using p2 l s1 c1 by (auto simp: perform_def)
  have "Rollback f w =
             (case Versions lst of
                [] \<Rightarrow> (Panic SliceBoundsOutOfRange, w2)
              | _ # versions \<Rightarrow>
                  if length versions < 2 then (Return (Some errOnlyOne), w2)
                  else
                    (case derefVersion (versions ! (length versions - 1)) of
                       None \<Rightarrow> (Panic NilDereference, w2)
                     | Some latest \<Rightarrow>
                         (case derefVersion (versions ! (length versions - 2)) of
                            None \<Rightarrow> (Panic NilDereference, w2)
                          | Some prev \<Rightarrow>
                              (case perform (apiUpdateAlias (Service f)
                                       (updateAliasReq f (Some (if cur = latest then prev else latest))))
                                      (CallUpdateAlias
                                         (updateAliasReq f (Some (if cur = latest then prev else latest))))
                                      (logf f InfoLevel ''rollback to version: %s''
                                         [ArgString (if cur = latest then prev else latest)] w2) of
                                 (Inl err, w3) \<Rightarrow> (Return (Some err), w3)
                               | (Inr _, w3) \<Rightarrow> (Return None, w3)))))"
    by (simp add: Rollback_def Let_def p1 r1 v p2 r2 split: list.split option.split)
  with s2 c2 show ?thesis by blast
qed

lemma returned_error:
  "fst (case perform m c w of (Inl err, w3) \<Rightarrow> (Return (Some err), w3)
                            | (Inr x, w3) \<Rightarrow> (Return None, w3)) =
     Return (case fst (m (remote w)) of Inl err \<Rightarrow> Some err | Inr x \<Rightarrow> None)"
  "calls (snd (case perform m c w of (Inl err, w3) \<Rightarrow> (Return (Some err), w3)
                                   | (Inr x, w3) \<Rightarrow> (Return None, w3))) = calls w @ [c]"
  by (auto simp: perform_def split: prod.splits sum.splits)

text \<open>
  C2. With the alias "current" at \<open>cur\<close> and the listing \<open>first # rest\<close>: when \<open>rest\<close> has
  fewer than two versions, \<open>Rollback\<close> fails with the "only one version" error and its
  remote calls are the two reads; when \<open>rest\<close> ends with \<open>prev\<close>, \<open>latest\<close>, its remote
  calls are the two reads and one alias write, to \<open>latest\<close>, or to \<open>prev\<close> when
  \<open>cur = latest\<close>, and it returns what the write returned.
\<close>

theorem rollback_target:
  assumes a: "apiGetAlias (Service f) (getAliasReq f) (remote w) = (Inr alias, s1)"
    and v: "FunctionVersion alias = Some cur"
    and l: "apiListVersionsByFunction (Service f) (listVersionsReq f) s1 = (Inr lst, s2)"
    and vs: "Versions lst = first # rest"
  shows
    "(length rest < 2 \<longrightarrow>
        fst (Rollback f w) = Return (Some errOnlyOne) \<and>
        newCalls w (snd (Rollback f w)) =
          [CallGetAlias (getAliasReq f), CallListVersionsByFunction (listVersionsReq f)] \<and>
        filter isAliasWrite (newCalls w (snd (Rollback f w))) = []) \<and>
     (rest = pre @ [vp, vl] \<and> derefVersion vp = Some prev \<and> derefVersion vl = Some latest \<longrightarrow>
        fst (Rollback f w) =
          Return (case fst (apiUpdateAlias (Service f)
                         (updateAliasReq f (Some (if cur = latest then prev else latest))) s2) of
                    Inl err \<Rightarrow> Some err | Inr _ \<Rightarrow> None) \<and>
        newCalls w (snd (Rollback f w)) =
          [CallGetAlias (getAliasReq f), CallListVersionsByFunction (listVersionsReq f),
           CallUpdateAlias (updateAliasReq f (Some (if cur = latest then prev else latest)))] \<and>
        length (filter isAliasWrite (newCalls w (snd (Rollback f w)))) = 1)"
proof -
  obtain w2 where s2: "remote w2 = s2"
    and c2: "calls w2 = calls w @ [CallGetAlias (getAliasReq f),
                                   CallListVersionsByFunction (listVersionsReq f)]"
    and r: "Rollback f w =
             (case Versions lst of
                [] \<Rightarrow> (Panic SliceBoundsOutOfRange, w2)
              | _ # versions \<Rightarrow>
                  if length versions < 2 then (Return (Some errOnlyOne), w2)
                  else
                    (case derefVersion (versions ! (length versions - 1)) of
                       None \<Rightarrow> (Panic NilDereference, w2)
                     | Some latest \<Rightarrow>
                         (case derefVersion (versions ! (length versions - 2)) of
                            None \<Rightarrow> (Panic NilDereference, w2)
                          | Some prev \<Rightarrow>
                              (case perform (apiUpdateAlias (Service f)
                                       (updateAliasReq f (Some (if cur = latest then prev else latest))))
                                      (CallUpdateAlias
                                         (updateAliasReq f (Some (if cur = latest then prev else latest))))
                                      (logf f InfoLevel ''rollback to version: %s''
                                         [ArgString (if cur = latest then prev else latest)] w2) of
                                 (Inl err, w3) \<Rightarrow> (Return (Some err), w3)
                               | (Inr _, w3) \<Rightarrow> (Return None, w3)))))"
    using Rollback_listed [OF a v l] by blast
  have short: "length rest < 2 \<longrightarrow>
        fst (Rollback f w) = Return (Some errOnlyOne) \<and>
        newCalls w (snd (Rollback f w)) =
          [CallGetAlias (getAliasReq f), CallListVersionsByFunction (listVersionsReq f)] \<and>
        filter isAliasWrite (newCalls w (snd (Rollback f w))) = []"
    using r vs c2 by (simp add: newCalls_def)
  have long: "rest = pre @ [vp, vl] \<and> derefVersion vp = Some prev \<and>
        derefVersion vl = Some latest \<longrightarrow>
        fst (Rollback f w) =
          Return (case fst (apiUpdateAlias (Service f)
                         (updateAliasReq f (Some (if cur = latest then prev else latest))) s2) of
                    Inl err \<Rightarrow> Some err | Inr _ \<Rightarrow> None) \<and>
        newCalls w (snd (Rollback f w)) =
          [CallGetAlias (getAliasReq f), CallListVersionsByFunction (listVersionsReq f),
           CallUpdateAlias (updateAliasReq f (Some (if cur = latest then prev else latest)))] \<and>
        length (filter isAliasWrite (newCalls w (snd (Rollback f w)))) = 1"
  proof
    assume h: "rest = pre @ [vp, vl] \<and> derefVersion vp = Some prev \<and>
        derefVersion vl = Some latest"
    let ?u = "updateAliasReq f (Some (if cur = latest then prev else latest))"
    have r': "Rollback f w =
               (case perform (apiUpdateAlias (Service f) ?u) (CallUpdateAlias ?u)
                       (logf f InfoLevel ''rollback to version: %s''
                          [ArgString (if cur = latest then prev else latest)] w2) of
                  (Inl err, w3) \<Rightarrow> (Return (Some err), w3)
                | (Inr _, w3) \<Rightarrow> (Return None, w3))"
      using h by (simp add: r vs nth_append)
    have f1: "fst (Rollback f w) =
          Return (case fst (apiUpdateAlias (Service f) ?u s2) of
                    Inl err \<Rightarrow> Some err | Inr _ \<Rightarrow> None)"
      unfolding r' returned_error(1) using s2 by simp
    have f2: "calls (snd (Rollback f w)) =
                calls w @ [CallGetAlias (getAliasReq f),
                           CallListVersionsByFunction (listVersionsReq f), CallUpdateAlias ?u]"
      unfolding r' returned_error(2) using c2 by simp
    have f3: "newCalls w (snd (Rollback f w)) =
          [CallGetAlias (getAliasReq f), CallListVersionsByFunction (listVersionsReq f),
           CallUpdateAlias ?u]"
      using f2 by (rule newCalls_append)
    show "fst (Rollback f w) =
          Return (case fst (apiUpdateAlias (Service f) ?u s2) of
                    Inl err \<Rightarrow> Some err | Inr _ \<Rightarrow> None) \<and>
        newCalls w (snd (Rollback f w)) =
          [CallGetAlias (getAliasReq f), CallListVersionsByFunction (listVersionsReq f),
           CallUpdateAlias ?u] \<and>
        length (filter isAliasWrite (newCalls w (snd (Rollback f w)))) = 1"
      using f1 f3 by simp
  qed
  from short long show ?thesis by blast
qed

text \<open>
  C9. When the remote lists no version at all, \<open>Rollback\<close> panics on the slice
  \<^verbatim>\<open>list.Versions[1:]\<close>: it does not return the "only one version" error, and it
  writes no alias.
\<close>

theorem rollback_empty_listing_panics:
  assumes a: "apiGetAlias (Service f) (getAliasReq f) (remote w) = (Inr alias, s1)"
    and v: "FunctionVersion alias = Some cur"
    and l: "apiListVersionsByFunction (Service f) (listVersionsReq f) s1 = (Inr lst, s2)"
    and vs: "Versions lst = []"
  shows "fst (Rollback f w) = Panic SliceBoundsOutOfRange \<and>
         fst (Rollback f w) \<noteq> Return (Some errOnlyOne) \<and>
         newCalls w (snd (Rollback f w)) =
           [CallGetAlias (getAliasReq f), CallListVersionsByFunction (listVersionsReq f)]"
  using Rollback_listed [OF a v l] vs by (auto simp: newCalls_def)

theorem rollback_target_witness:
  "fst (Rollback exFunction exWorldOneVersion) = Return (Some errOnlyOne) \<and>
   filter isAliasWrite (newCalls exWorldOneVersion (snd (Rollback exFunction exWorldOneVersion))) = [] \<and>
   fst (Rollback exFunction exWorld) = Return None \<and>
   newCalls exWorld (snd (Rollback exFunction exWorld)) =
     [CallGetAlias (getAliasReq exFunction), CallListVersionsByFunction (listVersionsReq exFunction),
      CallUpdateAlias (updateAliasReq exFunction (Some ''II''))] \<and>
   fst (Rollback exFunction exWorldAliasII) = Return None \<and>
   newCalls exWorldAliasII (snd (Rollback exFunction exWorldAliasII)) =
     [CallGetAlias (getAliasReq exFunction), CallListVersionsByFunction (listVersionsReq exFunction),
      CallUpdateAlias (updateAliasReq exFunction (Some ''III''))]"
proof -
  let ?v0 = "Some \<lparr>CodeSha256 = Some ''#'', Version = Some ''$LATEST''\<rparr>"
  let ?v1 = "Some \<lparr>CodeSha256 = None, Version = Some ''I''\<rparr>"
  let ?v2 = "Some \<lparr>CodeSha256 = None, Version = Some ''II''\<rparr>"
  let ?v3 = "Some \<lparr>CodeSha256 = None, Version = Some ''III''\<rparr>"
  have a1: "apiGetAlias (Service exFunction) (getAliasReq exFunction) (remote exWorldOneVersion)
            = (Inr \<lparr>FunctionVersion = Some ''I''\<rparr>, remote exWorldOneVersion)"
    by (simp add: ex_defs exWorldOneVersion_def)
  have l1: "apiListVersionsByFunction (Service exFunction) (listVersionsReq exFunction)
              (remote exWorldOneVersion)
            = (Inr \<lparr>Versions = [?v0, ?v1]\<rparr>, remote exWorldOneVersion)"
    by (simp add: ex_defs exWorldOneVersion_def)
  have a2: "apiGetAlias (Service exFunction) (getAliasReq exFunction) (remote exWorld)
            = (Inr \<lparr>FunctionVersion = Some ''III''\<rparr>, remote exWorld)"
    by (simp add: ex_defs)
  have l2: "apiListVersionsByFunction (Service exFunction) (listVersionsReq exFunction)
              (remote exWorld)
            = (Inr \<lparr>Versions = [?v0, ?v1, ?v2, ?v3]\<rparr>, remote exWorld)"
    by (simp add: ex_defs)
  have a3: "apiGetAlias (Service exFunction) (getAliasReq exFunction) (remote exWorldAliasII)
            = (Inr \<lparr>FunctionVersion = Some ''II''\<rparr>, remote exWorldAliasII)"
    by (simp add: ex_defs exWorldAliasII_def)
  have l3: "apiListVersionsByFunction (Service exFunction) (listVersionsReq exFunction)
              (remote exWorldAliasII)
            = (Inr \<lparr>Versions = [?v0, ?v1, ?v2, ?v3]\<rparr>, remote exWorldAliasII)"
    by (simp add: ex_defs exWorldAliasII_def)
  have u2: "fst (apiUpdateAlias (Service exFunction) (updateAliasReq exFunction (Some ''II''))
                   (remote exWorld)) = Inr \<lparr>FunctionVersion = Some ''II''\<rparr>"
    by (simp add: ex_defs)
  have u3: "fst (apiUpdateAlias (Service exFunction) (updateAliasReq exFunction (Some ''III''))
                   (remote exWorldAliasII)) = Inr \<lparr>FunctionVersion = Some ''III''\<rparr>"
    by (simp add: ex_defs exWorldAliasII_def)
  note t1 = rollback_target [OF a1 _ l1, of "''I''" ?v0 "[?v1]", THEN conjunct1]
  note t2 = rollback_target [OF a2 _ l2, of "''III''" ?v0 "[?v1, ?v2, ?v3]" "[?v1]" ?v2 ?v3 "''II''" "''III''",
              THEN conjunct2]
  note t3 = rollback_target [OF a3 _ l3, of "''II''" ?v0 "[?v1, ?v2, ?v3]" "[?v1]" ?v2 ?v3 "''II''" "''III''",
              THEN conjunct2]
  show ?thesis
    using t1 t2 t3 by (simp add: derefVersion_def u2 u3)
qed

theorem rollback_empty_listing_panics_witness:
  "fst (Rollback exFunctionEmptyListing exWorld) = Panic SliceBoundsOutOfRange \<and>
   newCalls exWorld (snd (Rollback exFunctionEmptyListing exWorld)) =
     [CallGetAlias (getAliasReq exFunctionEmptyListing),
      CallListVersionsByFunction (listVersionsReq exFunctionEmptyListing)]"
proof -
  have a: "apiGetAlias (Service exFunctionEmptyListing) (getAliasReq exFunctionEmptyListing)
             (remote exWorld) = (Inr \<lparr>FunctionVersion = Some ''III''\<rparr>, remote exWorld)"
    by (simp add: ex_defs exFunctionEmptyListing_def mockAPIEmptyListing_def)
  have l: "apiListVersionsByFunction (Service exFunctionEmptyListing)
             (listVersionsReq exFunctionEmptyListing) (remote exWorld)
           = (Inr \<lparr>Versions = []\<rparr>, remote exWorld)"
    by (simp add: ex_defs exFunctionEmptyListing_def mockAPIEmptyListing_def)
  show ?thesis
    using rollback_empty_listing_panics [OF a _ l, of "''III''"] by simp
qed

subsection \<open>RollbackVersion\<close>

text \<open>
  C3. With the alias "current" at \<open>cur\<close>: \<open>RollbackVersion\<close> of \<open>cur\<close> itself fails with
  the "currently deployed" error and its only remote call is the read of the alias; of
  any other version, its remote calls are that read and one alias write to the version,
  with no listing of versions in between, and it returns what the write returned.
\<close>

theorem rollback_version_unchecked:
  assumes a: "apiGetAlias (Service f) (getAliasReq f) (remote w) = (Inr alias, s1)"
    and v: "FunctionVersion alias = Some cur"
  shows
    "(version = cur \<longrightarrow>
        fst (RollbackVersion f version w) = Return (Some errCurrentlyDeployed) \<and>
        newCalls w (snd (RollbackVersion f version w)) = [CallGetAlias (getAliasReq f)]) \<and>
     (version \<noteq> cur \<longrightarrow>
        fst (RollbackVersion f version w) =
          Return (case fst (apiUpdateAlias (Service f) (updateAliasReq f (Some version)) s1) of
                    Inl err \<Rightarrow> Some err | Inr _ \<Rightarrow> None) \<and>
        newCalls w (snd (RollbackVersion f version w)) =
          [CallGetAlias (getAliasReq f), CallUpdateAlias (updateAliasReq f (Some version))] \<and>
        filter isListVersions (newCalls w (snd (RollbackVersion f version w))) = [])"
proof -
  let ?w0 = "logf f InfoLevel ''rolling back'' [] w"
  obtain r1 w1 where p1: "perform (apiGetAlias (Service f) (getAliasReq f))
                            (CallGetAlias (getAliasReq f)) ?w0 = (r1, w1)"
    by (cases "perform (apiGetAlias (Service f) (getAliasReq f)) (CallGetAlias (getAliasReq f)) ?w0")
  have r1: "r1 = Inr alias" and s1: "remote w1 = s1"
    and c1: "calls w1 = calls w @ [CallGetAlias (getAliasReq f)]"
    using p1 a by (auto simp: perform_def)
  let ?w2 = "logf f InfoLevel ''current version: %s'' [ArgString cur] w1"
  let ?u = "updateAliasReq f (Some version)"
  have r: "RollbackVersion f version w =
             (if version = cur then (Return (Some errCurrentlyDeployed), ?w2)
              else (case perform (apiUpdateAlias (Service f) ?u) (CallUpdateAlias ?u) ?w2 of
                      (Inl err, w3) \<Rightarrow> (Return (Some err), w3)
                    | (Inr _, w3) \<Rightarrow> (Return None, w3)))"
    by (simp add: RollbackVersion_def Let_def p1 r1 v)
  have same: "version = cur \<longrightarrow>
        fst (RollbackVersion f version w) = Return (Some errCurrentlyDeployed) \<and>
        newCalls w (snd (RollbackVersion f version w)) = [CallGetAlias (getAliasReq f)]"
  proof
    assume e: "version = cur"
    have r': "RollbackVersion f version w = (Return (Some errCurrentlyDeployed), ?w2)"
      using r e by simp
    show "fst (RollbackVersion f version w) = Return (Some errCurrentlyDeployed) \<and>
        newCalls w (snd (RollbackVersion f version w)) = [CallGetAlias (getAliasReq f)]"
      unfolding r' using c1 by (simp add: newCalls_def)
  qed
  have other: "version \<noteq> cur \<longrightarrow>
        fst (RollbackVersion f version w) =
          Return (case fst (apiUpdateAlias (Service f) ?u s1) of
                    Inl err \<Rightarrow> Some err | Inr _ \<Rightarrow> None) \<and>
        newCalls w (snd (RollbackVersion f version w)) =
          [CallGetAlias (getAliasReq f), CallUpdateAlias ?u] \<and>
        filter isListVersions (newCalls w (snd (RollbackVersion f version w))) = []"
  proof
    assume ne: "version \<noteq> cur"
    have r': "RollbackVersion f version w =
                (case perform (apiUpdateAlias (Service f) ?u) (CallUpdateAlias ?u) ?w2 of
                      (Inl err, w3) \<Rightarrow> (Return (Some err), w3)
                    | (Inr _, w3) \<Rightarrow> (Return None, w3))"
      using r ne by simp
    have f1: "fst (RollbackVersion f version w) =
          Return (case fst (apiUpdateAlias (Service f) ?u s1) of
                    Inl err \<Rightarrow> Some err | Inr _ \<Rightarrow> None)"
      unfolding r' returned_error(1) using s1 by simp
    have f2: "calls (snd (RollbackVersion f version w)) =
                calls w @ [CallGetAlias (getAliasReq f), CallUpdateAlias ?u]"
      unfolding r' returned_error(2) using c1 by simp
    have f3: "newCalls w (snd (RollbackVersion f version w)) =
                [CallGetAlias (getAliasReq f), CallUpdateAlias ?u]"
      using f2 by (rule newCalls_append)
    show "fst (RollbackVersion f version w) =
          Return (case fst (apiUpdateAlias (Service f) ?u s1) of
                    Inl err \<Rightarrow> Some err | Inr _ \<Rightarrow> None) \<and>
        newCalls w (snd (RollbackVersion f version w)) =
          [CallGetAlias (getAliasReq f), CallUpdateAlias ?u] \<and>
        filter isListVersions (newCalls w (snd (RollbackVersion f version w))) = []"
      using f1 f3 by simp
  qed
  from same other show ?thesis by blast
qed

theorem rollback_version_unchecked_witness:
  "fst (RollbackVersion exFunction ''III'' exWorld) = Return (Some errCurrentlyDeployed) \<and>
   newCalls exWorld (snd (RollbackVersion exFunction ''III'' exWorld)) =
     [CallGetAlias (getAliasReq exFunction)] \<and>
   ''XL'' \<notin> set (m_versions (remote exWorld)) \<and>
   fst (RollbackVersion exFunction ''XL'' exWorld) = Return None \<and>
   newCalls exWorld (snd (RollbackVersion exFunction ''XL'' exWorld)) =
     [CallGetAlias (getAliasReq exFunction),
      CallUpdateAlias (updateAliasReq exFunction (Some ''XL''))]"
proof -
  have a: "apiGetAlias (Service exFunction) (getAliasReq exFunction) (remote exWorld)
            = (Inr \<lparr>FunctionVersion = Some ''III''\<rparr>, remote exWorld)"
    by (simp add: ex_defs)
  have u: "fst (apiUpdateAlias (Service exFunction) (updateAliasReq exFunction (Some ''XL''))
                  (remote exWorld)) = Inr \<lparr>FunctionVersion = Some ''XL''\<rparr>"
    by (simp add: ex_defs)
  have m: "''XL'' \<notin> set (m_versions (remote exWorld))"
    by (simp add: ex_defs)
  note t1 = rollback_version_unchecked [OF a, of "''III''" "''III''", THEN conjunct1]
  note t2 = rollback_version_unchecked [OF a, of "''III''" "''XL''", THEN conjunct2]
  show ?thesis
    using t1 t2 m by (simp add: u)
qed

subsection \<open>Invoke\<close>

text \<open>Once the remote has answered with a response, \<open>Invoke\<close> is a function of it.\<close>

lemma Invoke_answered:
  assumes e: "jsonMarshal sy event = Inr eb"
    and c: "jsonMarshal sy context = Inr cb"
    and i: "apiInvoke (Service f) (invokeReq sy f eb cb kind) (remote w) = (Inr res, s)"
  shows "fst (Invoke sy f event context kind w) =
           (case FunctionError res of
              Some fe \<Rightarrow>
                (case unmarshalInvokeError sy (Payload res)
                        \<lparr>Message = [], Type = [], Stack = [], Handled = (fe = ''Handled'')\<rparr> of
                   Inl err \<Rightarrow> Return (None, None, Some err)
                 | Inr e' \<Rightarrow> Return (None, None, Some (InvokeErr e')))
            | None \<Rightarrow>
                if kind = Event
                then Return (Some (BytesReader []), Some (BytesReader []), None)
                else (case LogResult res of
                        None \<Rightarrow> Panic NilDereference
                      | Some lr \<Rightarrow>
                          Return (Some (BytesReader (Payload res)), Some (Base64Decoder lr), None)))"
    and "calls (snd (Invoke sy f event context kind w)) =
           calls w @ [CallInvoke (invokeReq sy f eb cb kind)]"
  using e c i
  by (simp_all add: Invoke_def perform_def Let_def split: option.split sum.split)

text \<open>
  C4, as the code has it. When the response carries the function-error marker \<open>fe\<close>,
  \<open>Invoke\<close> returns no reply stream and no log stream, and one error. The payload is
  decoded into an error value whose handled flag is \<open>fe = ''Handled''\<close> and whose other
  fields are empty. When that succeeds with \<open>e\<close>, the error returned is the
  \<open>InvokeError\<close> \<open>e\<close>, and its handled flag is the one set from the marker whenever the
  decoder leaves that field alone on this payload. When it fails with \<open>derr\<close>, the error
  returned is \<open>derr\<close>.
\<close>

theorem invoke_function_error:
  assumes "jsonMarshal sy event = Inr eb"
    and "jsonMarshal sy context = Inr cb"
    and "apiInvoke (Service f) (invokeReq sy f eb cb kind) (remote w) = (Inr res, s)"
    and "FunctionError res = Some fe"
  shows
    "(\<exists>err. fst (Invoke sy f event context kind w) = Return (None, None, Some err)) \<and>
     (unmarshalInvokeError sy (Payload res)
        \<lparr>Message = [], Type = [], Stack = [], Handled = (fe = ''Handled'')\<rparr> = Inr e \<longrightarrow>
        fst (Invoke sy f event context kind w) = Return (None, None, Some (InvokeErr e)) \<and>
        ((\<forall>e0 e'. unmarshalInvokeError sy (Payload res) e0 = Inr e' \<longrightarrow> Handled e' = Handled e0)
           \<longrightarrow> Handled e = (fe = ''Handled''))) \<and>
     (unmarshalInvokeError sy (Payload res)
        \<lparr>Message = [], Type = [], Stack = [], Handled = (fe = ''Handled'')\<rparr> = Inl derr \<longrightarrow>
        fst (Invoke sy f event context kind w) = Return (None, None, Some derr))"
  using Invoke_answered(1) [OF assms(1-3)] assms(4)
  by (auto split: sum.splits)

theorem invoke_function_error_witness:
  "fst (Invoke exSys exFunction (Some [0x7B, 0x7D]) (Some []) RequestResponse exWorldFnError) =
     Return (None, None,
       Some (InvokeErr \<lparr>Message = ''boom'', Type = ''Error'', Stack = [''at handler''],
                        Handled = True\<rparr>)) \<and>
   fst (Invoke exSys exFunction (Some [0x7B, 0x7D]) (Some []) RequestResponse exWorldBadPayload) =
     Return (None, None, Some (ExternalError ''unexpected end of JSON input''))"
proof -
  have m1: "jsonMarshal exSys (Some [0x7B, 0x7D]) = Inr [0x7B, 0x7D]"
    and m2: "jsonMarshal exSys (Some []) = Inr []"
    by (simp_all add: exSys_def)
  have i: "apiInvoke (Service exFunction)
             (invokeReq exSys exFunction [0x7B, 0x7D] [] RequestResponse) (remote exWorldFnError)
           = (Inr \<lparr>FunctionError = Some ''Handled'', LogResult = Some ''bG9n'',
                   Payload = [0x7B, 0x7D]\<rparr>, remote exWorldFnError)"
    by (simp add: ex_defs exWorldFnError_def)
  have u: "unmarshalInvokeError exSys [0x7B, 0x7D]
             \<lparr>Message = [], Type = [], Stack = [], Handled = (''Handled'' = ''Handled'')\<rparr>
           = Inr \<lparr>Message = ''boom'', Type = ''Error'', Stack = [''at handler''], Handled = True\<rparr>"
    by (simp add: exSys_def)
  have p: "\<forall>e0 e'. unmarshalInvokeError exSys [0x7B, 0x7D] e0 = Inr e' \<longrightarrow>
             Handled e' = Handled e0"
    by (auto simp: exSys_def)
  have i': "apiInvoke (Service exFunction)
             (invokeReq exSys exFunction [0x7B, 0x7D] [] RequestResponse) (remote exWorldBadPayload)
           = (Inr \<lparr>FunctionError = Some ''Unhandled'', LogResult = None, Payload = []\<rparr>,
              remote exWorldBadPayload)"
    by (simp add: ex_defs exWorldBadPayload_def)
  have u': "unmarshalInvokeError exSys []
             \<lparr>Message = [], Type = [], Stack = [], Handled = (''Unhandled'' = ''Handled'')\<rparr>
           = Inl (ExternalError ''unexpected end of JSON input'')"
    by (simp add: exSys_def)
  note t1 = invoke_function_error [OF m1 m2 i, of "''Handled''"
              "\<lparr>Message = ''boom'', Type = ''Error'', Stack = [''at handler''], Handled = True\<rparr>",
              THEN conjunct2, THEN conjunct1]
  note t2 = invoke_function_error [OF m1 m2 i', of "''Unhandled''" _
              "ExternalError ''unexpected end of JSON input''", THEN conjunct2, THEN conjunct2]
  show ?thesis
    using t1 t2 u p u' by simp
qed

text \<open>
  The claim as written fails twice. With an empty payload the decoder rejects it, and
  the error \<open>Invoke\<close> returns is the decoder's, not an \<open>InvokeError\<close>. With the payload
  \<^verbatim>\<open>{"Handled":true}\<close> and the marker \<^verbatim>\<open>Unhandled\<close>, the \<open>InvokeError\<close> returned has its
  handled flag set, from the payload and against the marker.
\<close>

theorem invoke_function_error_counterexample:
  "FunctionError (m_reply (remote exWorldBadPayload)) = Some ''Unhandled'' \<and>
   fst (Invoke exSys exFunction (Some [0x7B, 0x7D]) (Some []) RequestResponse exWorldBadPayload) =
     Return (None, None, Some (ExternalError ''unexpected end of JSON input'')) \<and>
   FunctionError (m_reply (remote exWorldHandledKey)) = Some ''Unhandled'' \<and>
   fst (Invoke exSysKeyed exFunction (Some [0x7B, 0x7D]) (Some []) RequestResponse
          exWorldHandledKey) =
     Return (None, None,
       Some (InvokeErr \<lparr>Message = [], Type = [], Stack = [], Handled = True\<rparr>))"
  by (simp add: Invoke_def perform_def exSys_def exSysKeyed_def ex_defs exWorldBadPayload_def
      exWorldHandledKey_def handledKeyPayload_def)

text \<open>
  C5. An invocation of kind \<open>Event\<close> that the remote answers without a function error
  returns an empty reply reader and an empty log reader, and no error.
\<close>

theorem invoke_event_empty_streams:
  assumes "jsonMarshal sy event = Inr eb"
    and "jsonMarshal sy context = Inr cb"
    and "apiInvoke (Service f) (invokeReq sy f eb cb Event) (remote w) = (Inr res, s)"
    and "FunctionError res = None"
  shows "\<exists>reply logs.
           fst (Invoke sy f event context Event w) = Return (Some reply, Some logs, None) \<and>
           reply = BytesReader [] \<and> logs = BytesReader [] \<and>
           readerLen reply = Some 0 \<and> readerLen logs = Some 0"
  using Invoke_answered(1) [OF assms(1-3)] assms(4) by simp

theorem invoke_event_empty_streams_witness:
  "fst (Invoke exSys exFunction (Some [0x7B, 0x7D]) (Some []) Event exWorld) =
     Return (Some (BytesReader []), Some (BytesReader []), None)"
proof -
  have m1: "jsonMarshal exSys (Some [0x7B, 0x7D]) = Inr [0x7B, 0x7D]"
    and m2: "jsonMarshal exSys (Some []) = Inr []"
    by (simp_all add: exSys_def)
  have i: "apiInvoke (Service exFunction)
             (invokeReq exSys exFunction [0x7B, 0x7D] [] Event) (remote exWorld)
           = (Inr exReply, remote exWorld)"
    by (simp add: exFunction_def exWorld_def exRemote_def mockAPI_def)
  have n: "FunctionError exReply = None"
    by (simp add: exReply_def)
  show ?thesis
    using invoke_event_empty_streams [OF m1 m2 i n] by auto
qed

text \<open>
  C10. When the response carries a function-error marker and the decoder rejects the
  payload with \<open>derr\<close>, \<open>Invoke\<close> returns \<open>derr\<close> itself, with no reply stream and no
  log stream.
\<close>

theorem invoke_undecodable_error_payload:
  assumes "jsonMarshal sy event = Inr eb"
    and "jsonMarshal sy context = Inr cb"
    and "apiInvoke (Service f) (invokeReq sy f eb cb kind) (remote w) = (Inr res, s)"
    and "FunctionError res = Some fe"
    and "unmarshalInvokeError sy (Payload res)
           \<lparr>Message = [], Type = [], Stack = [], Handled = (fe = ''Handled'')\<rparr> = Inl derr"
  shows "fst (Invoke sy f event context kind w) = Return (None, None, Some derr)"
  using Invoke_answered(1) [OF assms(1-3)] assms(4,5) by simp

theorem invoke_undecodable_error_payload_witness:
  "fst (Invoke exSys exFunction (Some [0x7B, 0x7D]) (Some []) RequestResponse exWorldBadPayload) =
     Return (None, None, Some (ExternalError ''unexpected end of JSON input''))"
proof -
  have m1: "jsonMarshal exSys (Some [0x7B, 0x7D]) = Inr [0x7B, 0x7D]"
    and m2: "jsonMarshal exSys (Some []) = Inr []"
    by (simp_all add: exSys_def)
  have i: "apiInvoke (Service exFunction)
             (invokeReq exSys exFunction [0x7B, 0x7D] [] RequestResponse) (remote exWorldBadPayload)
           = (Inr \<lparr>FunctionError = Some ''Unhandled'', LogResult = None, Payload = []\<rparr>,
              remote exWorldBadPayload)"
    by (simp add: ex_defs exWorldBadPayload_def)
  have u: "unmarshalInvokeError exSys
             (Payload \<lparr>FunctionError = Some ''Unhandled'', LogResult = None, Payload = []\<rparr>)
             \<lparr>Message = [], Type = [], Stack = [], Handled = (''Unhandled'' = ''Handled'')\<rparr>
           = Inl (ExternalError ''unexpected end of JSON input'')"
    by (simp add: exSys_def)
  show ?thesis
    using invoke_undecodable_error_payload [OF m1 m2 i _ u] by simp
qed

subsection \<open>The contents of the archive\<close>

lemma SetEnv_env: "\<exists>m. env (SetEnv f name val) = Some m \<and> m name = Some val"
  by (simp add: SetEnv_def)

text \<open>
  C7. When \<open>Zip\<close> returns an archive, its entries are, in this order: the environment
  bundle \<^verbatim>\<open>.env.json\<close>, one entry when the environment map is set and none when it is
  not; the two shim entries \<^verbatim>\<open>index.js\<close> and \<^verbatim>\<open>byline.js\<close> when the runtime is
  shimmed and none when it is not; the files of the source directory.
\<close>

theorem zip_contents:
  assumes "fst (Zip sy f w) = Return (Inr es)"
  shows "\<exists>rt files.
           runtime f = Some rt \<and>
           AddDir sy (disk (snd (zipBuild f w))) (Path f) = Inr files \<and>
           es = envEntries sy f @ (if Shimmed rt then shimEntries sy else []) @ files \<and>
           length (envEntries sy f) = (if env f = None then 0 else 1) \<and>
           length (shimEntries sy) = 2 \<and>
           map fst (shimEntries sy) = [''index.js'', ''byline.js''] \<and>
           map fst (envEntries sy f) = (if env f = None then [] else [''.env.json''])"
  using assms
  by (auto simp: Zip_fst zipEnv_def zipShim_def zipFinish_def envEntries_def shimEntries_def
      split: option.splits sum.splits go.splits if_splits)

theorem zip_contents_witness:
  "fst (Zip exSys exGoFunction exWorld) =
     Return (Inr [(''.env.json'', [0x7B, 0x7D]), (''index.js'', [0x69]), (''byline.js'', [0x62]),
                  (''index.js'', [0x61, 0x62]), (''main'', [0x7F, 0x45])]) \<and>
   (\<exists>rt files.
      runtime exGoFunction = Some rt \<and>
      AddDir exSys (disk (snd (zipBuild exGoFunction exWorld))) (Path exGoFunction) = Inr files \<and>
      [(''.env.json'', [0x7B, 0x7D]), (''index.js'', [0x69]), (''byline.js'', [0x62]),
       (''index.js'', [0x61, 0x62]), (''main'', [0x7F, 0x45])] =
        envEntries exSys exGoFunction @ (if Shimmed rt then shimEntries exSys else []) @ files) \<and>
   fst (Zip exSys exFunction exWorld) = Return (Inr [(''index.js'', [0x61, 0x62])]) \<and>
   (\<exists>rt files.
      runtime exFunction = Some rt \<and>
      AddDir exSys (disk (snd (zipBuild exFunction exWorld))) (Path exFunction) = Inr files \<and>
      [(''index.js'', [0x61, 0x62])] =
        envEntries exSys exFunction @ (if Shimmed rt then shimEntries exSys else []) @ files)"
proof -
  have g: "fst (Zip exSys exGoFunction exWorld) =
     Return (Inr [(''.env.json'', [0x7B, 0x7D]), (''index.js'', [0x69]), (''byline.js'', [0x62]),
                  (''index.js'', [0x61, 0x62]), (''main'', [0x7F, 0x45])])"
    by (simp add: zip_defs exGoFunction_def SetEnv_def exFunction_def golangRuntime_def
        exWorld_def)
  have n: "fst (Zip exSys exFunction exWorld) = Return (Inr [(''index.js'', [0x61, 0x62])])"
    by (simp add: zip_defs exFunction_def nodejsRuntime_def exWorld_def)
  from zip_contents [OF g] zip_contents [OF n] g n show ?thesis
    by blast
qed

subsection \<open>Open\<close>










end
